theory Spec2Isabelle imports Complex_Main begin

section \<open>The orientation card component (src/js/components/orientation-card.js)\<close>

text \<open>
  The component is an A-Frame component: an object with the methods \<open>init\<close>, \<open>onShow\<close>,
  \<open>onHide\<close> and \<open>tick\<close> and four event listeners registered by \<open>init\<close>.  It owns two
  \<open>CardMesh\<close> objects (background and header) and talks to the scene element, to its own
  element \<open>el\<close>, to the title text entity, to the positioning dummy, to the
  \<open>look-at-target\<close> component and to the analytics function \<open>ga\<close>.

  The model is state passing.  The state holds the two meshes, the named states of the three
  entities, the attributes the component writes, and the sequence of calls the component has
  made on its collaborators, in the order it made them.
\<close>

subsection \<open>Constants of the module\<close>

definition DESKTOP_Y_OFFSET :: real where "DESKTOP_Y_OFFSET = 0.3"
definition HEADER_HEIGHT :: real where "HEADER_HEIGHT = 0.1"
definition HEADER_Y_OFFSET :: real where "HEADER_Y_OFFSET = 0.566"
definition TEXT_LEFT_PADDING :: real where "TEXT_LEFT_PADDING = 0.025"

subsection \<open>Collaborators\<close>

text \<open>
  Class \<open>CardMesh\<close> (\<open>../meshes/card-mesh\<close>) is not among the sources, so the component is
  modelled over any implementation of the methods it calls.  A method gets the arguments of
  the call as they are passed (\<open>background.hide()\<close> passes none, \<open>header.show( 0.05 )\<close>
  one) and returns the mesh after the call together with the names of the events the mesh
  fired on its listeners during the call.
\<close>

record 'm CardMesh_ops =
  new_CardMesh :: "real \<Rightarrow> real \<Rightarrow> 'm"
  setPosition :: "real \<Rightarrow> real \<Rightarrow> 'm \<Rightarrow> 'm"
  show_mesh :: "real list \<Rightarrow> 'm \<Rightarrow> 'm \<times> string list"
  hide_mesh :: "real list \<Rightarrow> 'm \<Rightarrow> 'm \<times> string list"
  tick_mesh :: "real \<Rightarrow> 'm \<Rightarrow> 'm \<times> string list"
  animIn :: "'m \<Rightarrow> real"

type_synonym vec3 = "real \<times> real \<times> real"

text \<open>
  What the rest of the environment answers: whether the global function \<open>ga\<close> exists and
  returns, the value of \<open>PlatformUtils.getCardZOffset()\<close>, the world transform of the
  positioning dummy (from its local position to its world position, as the camera stands),
  and the constant \<open>TextColorHex\<close>.
\<close>

datatype ga_behaviour = GaReturns | GaUndefined | GaThrows

datatype error = ReferenceError | Thrown

record 't env =
  ga_global :: ga_behaviour
  getCardZOffset :: real
  getWorldPosition :: "vec3 \<Rightarrow> vec3"
  TextColorHex :: string
  toUpperCase :: "'t \<Rightarrow> 't"

subsection \<open>Calls on collaborators\<close>

datatype mesh_id = Background | Header

datatype call =
    SceneAddState string
  | SceneRemoveState string
  | ElRemoveState string
  | HeaderTextAddState string
  | HeaderTextRemoveState string
  | MeshShow mesh_id "real list"
  | MeshHide mesh_id "real list"
  | MeshTick mesh_id real
  | DummySetPosition vec3
  | DummyGetWorldPosition
  | ElSetPosition vec3
  | LookAtTargetUpdate
  | ElSetVisible bool
  | ElEmit string
  | Ga "string list"

subsection \<open>State\<close>

record 'm card =
  background :: 'm
  header :: 'm
  scene_states :: "string set"
  el_states :: "string set"
  headerText_states :: "string set"
  dummy_position :: vec3
  el_position :: vec3
  el_visible :: bool
  calls :: "call list"

definition called :: "call \<Rightarrow> 'm card \<Rightarrow> 'm card" where
  "called c s = s\<lparr>calls := calls s @ [c]\<rparr>"

subsection \<open>The entity interface of the host\<close>

text \<open>
  \<open>addState\<close> and \<open>removeState\<close> of an entity keep a set of named states: adding a state that
  is present and removing one that is absent change nothing and dispatch nothing.  Otherwise
  the entity dispatches \<open>stateadded\<close> or \<open>stateremoved\<close> with the name of the state as its
  detail, synchronously, after the set has changed, and the event bubbles: it runs the
  listeners of the entity and of every entity above it.

  \<open>init\<close> registers its listeners of \<open>stateadded\<close> and \<open>stateremoved\<close> on \<open>el\<close>.  The title
  entity is appended below the element \<open>orientation-back-meshes\<close>, which the page puts below
  \<open>el\<close>, so the events of the title reach these listeners as the events of \<open>el\<close> itself do.
  The scene is above \<open>el\<close>: its events reach no listener of the component.  \<open>addState\<close> and
  \<open>removeState\<close> of the scene are therefore plain updates, defined here; those of the title
  and of \<open>el\<close> run listeners and are defined with the methods the listeners call, below.
\<close>

definition scene_addState :: "string \<Rightarrow> 'm card \<Rightarrow> 'm card" where
  "scene_addState st s =
     called (SceneAddState st) (s\<lparr>scene_states := insert st (scene_states s)\<rparr>)"

definition scene_removeState :: "string \<Rightarrow> 'm card \<Rightarrow> 'm card" where
  "scene_removeState st s =
     called (SceneRemoveState st) (s\<lparr>scene_states := scene_states s - {st}\<rparr>)"

definition el_setVisible :: "bool \<Rightarrow> 'm card \<Rightarrow> 'm card" where
  "el_setVisible b s = called (ElSetVisible b) (s\<lparr>el_visible := b\<rparr>)"

definition el_setPosition :: "vec3 \<Rightarrow> 'm card \<Rightarrow> 'm card" where
  "el_setPosition p s = called (ElSetPosition p) (s\<lparr>el_position := p\<rparr>)"

definition dummy_setPosition :: "vec3 \<Rightarrow> 'm card \<Rightarrow> 'm card" where
  "dummy_setPosition p s = called (DummySetPosition p) (s\<lparr>dummy_position := p\<rparr>)"

definition dummy_getWorldPosition :: "'t env \<Rightarrow> 'm card \<Rightarrow> vec3 \<times> 'm card" where
  "dummy_getWorldPosition g s =
     (getWorldPosition g (dummy_position s), called DummyGetWorldPosition s)"

subsection \<open>The listener on the header mesh\<close>

text \<open>
  \<^verbatim>\<open>this.header.on( 'hide-complete', event => { this.el.emit( 'hide-complete', null, false ); });\<close>
  Every \<open>hide-complete\<close> the header mesh fires is passed on as one \<open>hide-complete\<close> of \<open>el\<close>;
  no listener is registered on the background mesh.
\<close>

definition header_listener :: "string \<Rightarrow> 'm card \<Rightarrow> 'm card" where
  "header_listener ev s = (if ev = ''hide-complete'' then called (ElEmit ''hide-complete'') s else s)"

definition background_show :: "'m CardMesh_ops \<Rightarrow> real list \<Rightarrow> 'm card \<Rightarrow> 'm card" where
  "background_show M args s =
     (called (MeshShow Background args) s)\<lparr>background := fst (show_mesh M args (background s))\<rparr>"

definition background_hide :: "'m CardMesh_ops \<Rightarrow> real list \<Rightarrow> 'm card \<Rightarrow> 'm card" where
  "background_hide M args s =
     (called (MeshHide Background args) s)\<lparr>background := fst (hide_mesh M args (background s))\<rparr>"

definition background_tick :: "'m CardMesh_ops \<Rightarrow> real \<Rightarrow> 'm card \<Rightarrow> 'm card" where
  "background_tick M dt s =
     (called (MeshTick Background dt) s)\<lparr>background := fst (tick_mesh M dt (background s))\<rparr>"

definition header_show :: "'m CardMesh_ops \<Rightarrow> real list \<Rightarrow> 'm card \<Rightarrow> 'm card" where
  "header_show M args s =
     (let (m, evs) = show_mesh M args (header s)
      in fold header_listener evs ((called (MeshShow Header args) s)\<lparr>header := m\<rparr>))"

definition header_hide :: "'m CardMesh_ops \<Rightarrow> real list \<Rightarrow> 'm card \<Rightarrow> 'm card" where
  "header_hide M args s =
     (let (m, evs) = hide_mesh M args (header s)
      in fold header_listener evs ((called (MeshHide Header args) s)\<lparr>header := m\<rparr>))"

definition header_tick :: "'m CardMesh_ops \<Rightarrow> real \<Rightarrow> 'm card \<Rightarrow> 'm card" where
  "header_tick M dt s =
     (let (m, evs) = tick_mesh M dt (header s)
      in fold header_listener evs ((called (MeshTick Header dt) s)\<lparr>header := m\<rparr>))"

subsection \<open>The analytics function\<close>

text \<open>
  \<open>ga\<close> is a global that the page may or may not define.  Calling an undefined global is
  a \<open>ReferenceError\<close>, and an exception of \<open>ga\<close> is not caught by the listener that calls
  it: either way the listener ends there.
\<close>

definition ga :: "'t env \<Rightarrow> string list \<Rightarrow> 'm card \<Rightarrow> error + 'm card" where
  "ga g args s =
     (case ga_global g of
        GaReturns \<Rightarrow> Inr (called (Ga args) s)
      | GaUndefined \<Rightarrow> Inl ReferenceError
      | GaThrows \<Rightarrow> Inl Thrown)"

text \<open>
  An exception of a listener ends the listener and is not passed on to the code that
  dispatched the event: that code goes on with the state as the listener left it.
\<close>

definition swallow :: "'m card \<Rightarrow> error + 'm card \<Rightarrow> 'm card" where
  "swallow s r = (case r of Inl e \<Rightarrow> s | Inr s' \<Rightarrow> s')"

subsection \<open>onShow, the title's addState and the stateadded listener\<close>

text \<open>
  \<open>onShow\<close> calls \<open>this.headerText.addState( 'visible' )\<close>.  When the title does not have
  the state yet, the host adds it and dispatches \<open>stateadded\<close>, which bubbles up to \<open>el\<close> and
  runs the listener of \<open>init\<close>; the listener looks at the name of the state only, so it calls
  \<open>ga\<close> and \<open>onShow\<close> again, inside the first \<open>onShow\<close>.  The three are one recursion, which
  ends because the title has the state when the nested \<open>onShow\<close> runs.
\<close>

function onShow :: "'m CardMesh_ops \<Rightarrow> 't env \<Rightarrow> 'm card \<Rightarrow> 'm card"
  and headerText_addState :: "'m CardMesh_ops \<Rightarrow> 't env \<Rightarrow> string \<Rightarrow> 'm card \<Rightarrow> 'm card"
  and stateadded_listener ::
    "'m CardMesh_ops \<Rightarrow> 't env \<Rightarrow> string \<Rightarrow> 'm card \<Rightarrow> error + 'm card"
where
  "onShow M g s =
     (let s1 = scene_addState ''modal'' s;
          s2 = headerText_addState M g ''visible'' s1;
          s3 = background_show M [0.25, 0.05] s2;
          s4 = header_show M [0.05] s3;
          s5 = dummy_setPosition (0, 0, getCardZOffset g) s4;
          (uiPosition, s6) = dummy_getWorldPosition g s5;
          s7 = el_setPosition uiPosition s6
      in called LookAtTargetUpdate s7)"
| "headerText_addState M g st s =
     (if st \<in> headerText_states s then called (HeaderTextAddState st) s
      else swallow
             (called (HeaderTextAddState st) (s\<lparr>headerText_states := insert st (headerText_states s)\<rparr>))
             (stateadded_listener M g st
               (called (HeaderTextAddState st)
                 (s\<lparr>headerText_states := insert st (headerText_states s)\<rparr>))))"
| "stateadded_listener M g st s =
     (if st \<noteq> ''visible'' then Inr s
      else case ga g [''send'', ''event'', ''orientation-card'', ''opened'', ''''] s of
             Inl e \<Rightarrow> Inl e
           | Inr s1 \<Rightarrow> Inr (onShow M g s1))"
  by pat_completeness auto

termination
  by (relation "measure (\<lambda>x. case x of
      Inl (M, g, s) \<Rightarrow> (if ''visible'' \<in> headerText_states s then 1 else 4)
    | Inr (Inl (M, g, st, s)) \<Rightarrow>
        (if st \<noteq> ''visible'' then 1 else if ''visible'' \<in> headerText_states s then 0 else 3)
    | Inr (Inr (M, g, st, s)) \<Rightarrow>
        (if st \<noteq> ''visible'' then 0 else if ''visible'' \<in> headerText_states s then 2 else 5))")
    (auto simp: scene_addState_def called_def ga_def split: ga_behaviour.splits)

subsection \<open>onHide, the two removeState calls and the stateremoved listener\<close>

text \<open>
  \<open>onHide\<close> calls \<open>this.el.removeState( 'visible' )\<close> and
  \<open>this.headerText.removeState( 'visible' )\<close>.  Each of them, when the state is present,
  removes it and dispatches \<open>stateremoved\<close>, which reaches the listener of \<open>init\<close> on \<open>el\<close>
  (from the title by bubbling); the listener looks at the name of the state only and calls
  \<open>onHide\<close> again, inside the first \<open>onHide\<close>.  The four are one recursion, which ends because
  each nested run finds one state fewer.
\<close>

function onHide :: "'m CardMesh_ops \<Rightarrow> 'm card \<Rightarrow> 'm card"
  and el_removeState :: "'m CardMesh_ops \<Rightarrow> string \<Rightarrow> 'm card \<Rightarrow> 'm card"
  and headerText_removeState :: "'m CardMesh_ops \<Rightarrow> string \<Rightarrow> 'm card \<Rightarrow> 'm card"
  and stateremoved_listener :: "'m CardMesh_ops \<Rightarrow> string \<Rightarrow> 'm card \<Rightarrow> 'm card"
where
  "onHide M s =
     (let s1 = scene_removeState ''modal'' s;
          s2 = el_removeState M ''visible'' s1;
          s3 = headerText_removeState M ''visible'' s2;
          s4 = background_hide M [] s3
      in header_hide M [0.05, 0.25] s4)"
| "el_removeState M st s =
     (if st \<in> el_states s
      then stateremoved_listener M st (called (ElRemoveState st) (s\<lparr>el_states := el_states s - {st}\<rparr>))
      else called (ElRemoveState st) s)"
| "headerText_removeState M st s =
     (if st \<in> headerText_states s
      then stateremoved_listener M st
             (called (HeaderTextRemoveState st)
               (s\<lparr>headerText_states := headerText_states s - {st}\<rparr>))
      else called (HeaderTextRemoveState st) s)"
| "stateremoved_listener M st s = (if st \<noteq> ''visible'' then s else onHide M s)"
  by pat_completeness auto

text \<open>
  No run of these functions adds a state to \<open>el\<close> or to the title; this is what the
  termination of the nested runs rests on.
\<close>

lemma header_listener_states:
  "el_states (fold header_listener evs s) = el_states s"
  "headerText_states (fold header_listener evs s) = headerText_states s"
  by (induction evs arbitrary: s) (simp_all add: header_listener_def called_def)

lemma hide_states:
  "el_states (header_hide M a (background_hide M b s)) = el_states s"
  "headerText_states (header_hide M a (background_hide M b s)) = headerText_states s"
  by (simp_all add: header_hide_def background_hide_def called_def header_listener_states
      split_beta)

lemma onHide_states_shrink:
  "onHide_el_removeState_headerText_removeState_stateremoved_listener_dom (Inl (Inl (M, s))) \<Longrightarrow>
     el_states (onHide M s) \<subseteq> el_states s \<and>
     headerText_states (onHide M s) \<subseteq> headerText_states s"
  "onHide_el_removeState_headerText_removeState_stateremoved_listener_dom (Inl (Inr (M, st, s))) \<Longrightarrow>
     el_states (el_removeState M st s) \<subseteq> el_states s \<and>
     headerText_states (el_removeState M st s) \<subseteq> headerText_states s"
  "onHide_el_removeState_headerText_removeState_stateremoved_listener_dom (Inr (Inl (M, st, s))) \<Longrightarrow>
     el_states (headerText_removeState M st s) \<subseteq> el_states s \<and>
     headerText_states (headerText_removeState M st s) \<subseteq> headerText_states s"
  "onHide_el_removeState_headerText_removeState_stateremoved_listener_dom (Inr (Inr (M, st, s))) \<Longrightarrow>
     el_states (stateremoved_listener M st s) \<subseteq> el_states s \<and>
     headerText_states (stateremoved_listener M st s) \<subseteq> headerText_states s"
proof (induct rule: onHide_el_removeState_headerText_removeState_stateremoved_listener.pinduct)
  case (1 M s)
  from 1(2) [OF refl] 1(3) [OF refl refl] show ?case
    by (simp add: onHide.psimps [OF 1(1)] Let_def hide_states scene_removeState_def called_def)
      blast
next
  case (2 M st s)
  then show ?case
    by (auto simp add: el_removeState.psimps called_def)
next
  case (3 M st s)
  then show ?case
    by (auto simp add: headerText_removeState.psimps called_def)
next
  case (4 M st s)
  then show ?case
    by (auto simp add: stateremoved_listener.psimps)
qed

termination onHide
proof (relation "measure (\<lambda>x. case x of
      Inl (Inl (M, s)) \<Rightarrow>
        4 * ((if ''visible'' \<in> el_states s then 1 else 0)
             + (if ''visible'' \<in> headerText_states s then 1 else 0)) + 3
    | Inl (Inr (M, st, s)) \<Rightarrow>
        (if st \<noteq> ''visible'' then 1
         else 4 * ((if ''visible'' \<in> el_states s then 1 else 0)
                   + (if ''visible'' \<in> headerText_states s then 1 else 0)) + 2)
    | Inr (Inl (M, st, s)) \<Rightarrow>
        (if st \<noteq> ''visible'' then 1
         else 4 * ((if ''visible'' \<in> el_states s then 1 else 0)
                   + (if ''visible'' \<in> headerText_states s then 1 else 0)) + 2)
    | Inr (Inr (M, st, s)) \<Rightarrow>
        (if st \<noteq> ''visible'' then 0
         else 4 * ((if ''visible'' \<in> el_states s then 1 else 0)
                   + (if ''visible'' \<in> headerText_states s then 1 else 0)) + 4))",
    goal_cases)
  case 1
  show ?case by simp
next
  case (2 M s x)
  then show ?case by (simp add: scene_removeState_def called_def)
next
  case (3 M s x xa)
  from onHide_states_shrink(2) [OF 3(3)] 3(1,2) show ?case
    by (auto simp add: scene_removeState_def called_def)
next
  case (4 M st s)
  then show ?case by (auto simp add: called_def)
next
  case (5 M st s)
  then show ?case by (auto simp add: called_def)
next
  case (6 M st s)
  then show ?case by simp
qed

subsection \<open>tick\<close>

definition tick :: "'m CardMesh_ops \<Rightarrow> real \<Rightarrow> real \<Rightarrow> 'm card \<Rightarrow> 'm card" where
  "tick M t dt s =
     (let s1 = background_tick M dt s;
          s2 = header_tick M dt s1
      in el_setVisible (animIn M (header s2) > 0) s2)"

subsection \<open>The listener of the hit region\<close>

definition raycaster_cursor_up_listener ::
  "'m CardMesh_ops \<Rightarrow> 't env \<Rightarrow> 'm card \<Rightarrow> error + 'm card" where
  "raycaster_cursor_up_listener M g s =
     (case ga g [''send'', ''event'', ''orientation-card'', ''dismissed'', ''''] s of
        Inl e \<Rightarrow> Inl e
      | Inr s1 \<Rightarrow> Inr (onHide M s1))"

subsection \<open>init\<close>

record 't schema =
  height :: real
  width :: real
  title :: 't

record 't info_card_text =
  text_color :: string
  text_font :: string
  text_letterSpacing :: real
  text_value :: 't
  text_width :: real
  text_wrapCount :: real

text \<open>
  What \<open>init\<close> builds, as far as the other methods and the title are concerned: the two
  meshes, the position of the header text and the \<open>info-card-text\<close> attribute of the title
  entity.  The record of calls starts here; the calls of \<open>init\<close> itself, which create
  entities and set their attributes, are not recorded.  The title is a string of the host
  language and \<open>toUpperCase\<close> is the method of that language, which the environment
  supplies: the type of strings is a parameter of the model.
\<close>

record ('m, 't) built =
  built_card :: "'m card"
  headerEl_position :: vec3
  headerText_info :: "'t info_card_text"

definition init ::
  "'m CardMesh_ops \<Rightarrow> 't env \<Rightarrow> 't schema \<Rightarrow> 'm card \<Rightarrow> ('m, 't) built" where
  "init M g data s =
     \<lparr> built_card = s\<lparr>
         background := new_CardMesh M (width data) (height data),
         header := setPosition M 0 HEADER_Y_OFFSET (new_CardMesh M (width data) HEADER_HEIGHT),
         headerText_states := {},
         calls := [] \<rparr>,
       headerEl_position =
         (- width data / 2 + TEXT_LEFT_PADDING, HEADER_Y_OFFSET - HEADER_HEIGHT / 2 + 0.025, 0),
       headerText_info = \<lparr>
         text_color = TextColorHex g,
         text_font = ''fonts/NowAlt-Bold.json'',
         text_letterSpacing = 6,
         text_value = toUpperCase g (title data),
         text_width = width data,
         text_wrapCount = 64 \<rparr> \<rparr>"

subsection \<open>What the host does with the listeners\<close>

text \<open>
  The host calls \<open>tick\<close> once per frame and runs the listeners when another part of the
  scene adds or removes a state of \<open>el\<close> or when the cursor is released on the hit region.
\<close>

datatype action = AddState string | RemoveState string | CursorUp | Frame real real

fun perform :: "'m CardMesh_ops \<Rightarrow> 't env \<Rightarrow> action \<Rightarrow> 'm card \<Rightarrow> 'm card" where
  "perform M g (AddState st) s =
     (if st \<in> el_states s then s
      else swallow (s\<lparr>el_states := insert st (el_states s)\<rparr>)
             (stateadded_listener M g st (s\<lparr>el_states := insert st (el_states s)\<rparr>)))"
| "perform M g (RemoveState st) s =
     (if st \<in> el_states s
      then stateremoved_listener M st (s\<lparr>el_states := el_states s - {st}\<rparr>)
      else s)"
| "perform M g CursorUp s = swallow s (raycaster_cursor_up_listener M g s)"
| "perform M g (Frame t dt) s = tick M t dt s"

definition run :: "'m CardMesh_ops \<Rightarrow> 't env \<Rightarrow> action list \<Rightarrow> 'm card \<Rightarrow> 'm card" where
  "run M g acts s = fold (perform M g) acts s"

section \<open>The card panel of the specification\<close>

text \<open>
  Modelled from the spec: class \<open>CardMesh\<close> (\<open>src/js/meshes/card-mesh.js\<close>) is not among
  the sources.  The specification describes it as the collaborator \<open>CardPanel\<close>:
  \<^item> attributes \<open>animationProgress\<close> in \<open>[0,1]\<close> (0 fully hidden, 1 fully shown) and
    \<open>isAnimating\<close>;
  \<^item> operations \<open>show(delaySeconds, staggerSeconds=0)\<close>,
    \<open>hide(delaySeconds=0, staggerSeconds=0)\<close> and \<open>advance(dt)\<close>;
  \<^item> progress changes only through \<open>advance\<close>, after a \<open>show\<close> or \<open>hide\<close> has been issued
    and its delay has elapsed; the stagger is an additional delay;
  \<^item> a panel redirected in mid-animation moves monotonically towards the new target;
  \<^item> the hide-complete notification fires when the hide animation completes, that is when
    the progress reaches 0 after a hide.
  The specification gives no duration of the animation: the speed (progress per unit of
  time) is a parameter.  The size and position given to the constructor and to
  \<open>setPosition\<close> are kept as they are.
\<close>

text \<open>
  Modelled from the spec: the signature of \<open>show\<close> and \<open>hide\<close>.  The first argument of a
  call is its delay and the second its stagger; an argument that is not passed is 0.
\<close>

definition delaySeconds :: "real list \<Rightarrow> real" where
  "delaySeconds args = (case args of [] \<Rightarrow> 0 | d # _ \<Rightarrow> d)"

definition staggerSeconds :: "real list \<Rightarrow> real" where
  "staggerSeconds args = (case args of d # g # _ \<Rightarrow> g | _ \<Rightarrow> 0)"

text \<open>
  Modelled from the spec: the state of a panel and its operations.  Besides the two
  attributes of the specification a panel remembers which of \<open>show\<close> and \<open>hide\<close> was issued
  last and how much of the delay is left.
\<close>

record CardPanel =
  animationProgress :: real
  isAnimating :: bool
  hiding :: bool
  delayLeft :: real
  panel_size :: "real \<times> real"
  panel_position :: "real \<times> real"

definition panel_new :: "real \<Rightarrow> real \<Rightarrow> CardPanel" where
  "panel_new w h =
     \<lparr> animationProgress = 0, isAnimating = False, hiding = False, delayLeft = 0,
       panel_size = (w, h), panel_position = (0, 0) \<rparr>"

definition panel_setPosition :: "real \<Rightarrow> real \<Rightarrow> CardPanel \<Rightarrow> CardPanel" where
  "panel_setPosition x y p = p\<lparr>panel_position := (x, y)\<rparr>"

definition panel_show :: "real list \<Rightarrow> CardPanel \<Rightarrow> CardPanel \<times> string list" where
  "panel_show args p =
     (p\<lparr>isAnimating := True, hiding := False,
        delayLeft := delaySeconds args + staggerSeconds args\<rparr>, [])"

definition panel_hide :: "real list \<Rightarrow> CardPanel \<Rightarrow> CardPanel \<times> string list" where
  "panel_hide args p =
     (p\<lparr>isAnimating := True, hiding := True,
        delayLeft := delaySeconds args + staggerSeconds args\<rparr>, [])"

definition panel_advance :: "real \<Rightarrow> real \<Rightarrow> CardPanel \<Rightarrow> CardPanel \<times> string list" where
  "panel_advance v dt p =
     (if \<not> isAnimating p then (p, [])
      else if dt < delayLeft p then (p\<lparr>delayLeft := delayLeft p - dt\<rparr>, [])
      else if hiding p then
        (let a = max 0 (animationProgress p - (dt - delayLeft p) * v)
         in (p\<lparr>animationProgress := a, delayLeft := 0, isAnimating := (0 < a)\<rparr>,
             if 0 < animationProgress p \<and> a = 0 then [''hide-complete''] else []))
      else
        (let a = min 1 (animationProgress p + (dt - delayLeft p) * v)
         in (p\<lparr>animationProgress := a, delayLeft := 0, isAnimating := (a < 1)\<rparr>, [])))"

definition CardPanel_ops :: "real \<Rightarrow> CardPanel CardMesh_ops" where
  "CardPanel_ops v =
     \<lparr> new_CardMesh = panel_new, setPosition = panel_setPosition,
       show_mesh = panel_show, hide_mesh = panel_hide,
       tick_mesh = panel_advance v, animIn = animationProgress \<rparr>"

subsection \<open>A page to run the component on\<close>

text \<open>
  The titles of this page are strings of ASCII characters, which is what the type
  \<open>String.literal\<close> holds.  On such a string \<open>String.prototype.toUpperCase\<close> turns the
  letters \<open>a\<close> to \<open>z\<close> into \<open>A\<close> to \<open>Z\<close> and leaves every other character as it is.
\<close>

definition ascii_toUpperCase :: "String.literal \<Rightarrow> String.literal" where
  "ascii_toUpperCase t =
     String.implode
       (map (\<lambda>c. if 97 \<le> (of_char c :: nat) \<and> (of_char c :: nat) \<le> 122
                 then char_of ((of_char c :: nat) - 32) else c)
          (String.explode t))"

definition page :: "String.literal env" where
  "page = \<lparr> ga_global = GaReturns, getCardZOffset = - 2,
            getWorldPosition = (\<lambda>(x, y, z). (x + 1, y + 1.6, z + 3)),
            TextColorHex = ''#FFFFFF'', toUpperCase = ascii_toUpperCase \<rparr>"

definition blank :: "CardPanel card" where
  "blank = \<lparr> background = panel_new 0 0, header = panel_new 0 0,
             scene_states = {}, el_states = {}, headerText_states = {},
             dummy_position = (0, 0, 0), el_position = (0, 0, 0), el_visible = True,
             calls = [] \<rparr>"

definition orientation :: "String.literal schema" where
  "orientation = \<lparr> height = 1, width = 2, title = STR ''Orientation'' \<rparr>"

definition card0 :: "CardPanel card" where
  "card0 = built_card (init (CardPanel_ops 2) page orientation blank)"

section \<open>Vocabulary of the properties\<close>

text \<open>
  The calls on \<open>el.emit\<close> that the listener on the header mesh makes for a list of events
  fired by the mesh.
\<close>

definition passed_on :: "string list \<Rightarrow> call list" where
  "passed_on evs = map ElEmit (filter (\<lambda>ev. ev = ''hide-complete'') evs)"

text \<open>The calls a method has added to the record: those of \<open>s'\<close> that are not yet in \<open>s\<close>.\<close>

definition since :: "'m card \<Rightarrow> 'm card \<Rightarrow> call list" where
  "since s s' = drop (length (calls s)) (calls s')"

text \<open>
  The show and hide calls among a list of calls, each with the delay and the stagger that
  the signature of the specification reads from its arguments.
\<close>

fun show_timing :: "call \<Rightarrow> (mesh_id \<times> real \<times> real) list" where
  "show_timing (MeshShow m a) = [(m, delaySeconds a, staggerSeconds a)]"
| "show_timing c = []"

fun hide_timing :: "call \<Rightarrow> (mesh_id \<times> real \<times> real) list" where
  "hide_timing (MeshHide m a) = [(m, delaySeconds a, staggerSeconds a)]"
| "hide_timing c = []"

definition show_timings :: "call list \<Rightarrow> (mesh_id \<times> real \<times> real) list" where
  "show_timings cs = concat (map show_timing cs)"

definition hide_timings :: "call list \<Rightarrow> (mesh_id \<times> real \<times> real) list" where
  "hide_timings cs = concat (map hide_timing cs)"

definition delay_of :: "mesh_id \<Rightarrow> (mesh_id \<times> real \<times> real) list \<Rightarrow> real option" where
  "delay_of m ts = map_option fst (map_of ts m)"

definition stagger_of :: "mesh_id \<Rightarrow> (mesh_id \<times> real \<times> real) list \<Rightarrow> real option" where
  "stagger_of m ts = map_option snd (map_of ts m)"

text \<open>
  The mirror of the specification: the timings of the way out are those of the way in with
  the two layers exchanged (same magnitudes, reversed layer order).
\<close>

fun other_layer :: "mesh_id \<Rightarrow> mesh_id" where
  "other_layer Background = Header"
| "other_layer Header = Background"

definition exact_mirror ::
  "(mesh_id \<times> real \<times> real) list \<Rightarrow> (mesh_id \<times> real \<times> real) list \<Rightarrow> bool" where
  "exact_mirror ins outs \<longleftrightarrow> set outs = set (map (\<lambda>(m, d, g). (other_layer m, d, g)) ins)"

text \<open>The calls on the two meshes that start a transition.\<close>

fun transition_call :: "call \<Rightarrow> bool" where
  "transition_call (MeshShow m a) = True"
| "transition_call (MeshHide m a) = True"
| "transition_call c = False"

definition mesh_calls :: "call list \<Rightarrow> call list" where
  "mesh_calls cs = filter transition_call cs"

text \<open>
  The events emitted on \<open>el\<close>, and the discipline of the completion event over a record of
  calls: every emitted event is \<open>hide-complete\<close>, and each one comes after a \<open>show\<close> of the
  header that no earlier \<open>hide-complete\<close> has used up.  The flag says whether such a \<open>show\<close>
  is pending at the start of the list.
\<close>

fun emitted :: "call list \<Rightarrow> string list" where
  "emitted [] = []"
| "emitted (ElEmit ev # cs) = ev # emitted cs"
| "emitted (c # cs) = emitted cs"

fun once_per_reveal :: "bool \<Rightarrow> call list \<Rightarrow> bool" where
  "once_per_reveal pending [] = True"
| "once_per_reveal pending (MeshShow Header a # cs) = once_per_reveal True cs"
| "once_per_reveal pending (ElEmit ev # cs) =
     (ev = ''hide-complete'' \<and> pending \<and> once_per_reveal False cs)"
| "once_per_reveal pending (c # cs) = once_per_reveal pending cs"

fun pending_after :: "bool \<Rightarrow> call list \<Rightarrow> bool" where
  "pending_after pending [] = pending"
| "pending_after pending (MeshShow Header a # cs) = pending_after True cs"
| "pending_after pending (ElEmit ev # cs) = pending_after False cs"
| "pending_after pending (c # cs) = pending_after pending cs"

text \<open>
  The frames in which the hide animation of a panel of the specification completes: the
  panel is hiding, its delay ends within the frame, and the rest of the frame brings its
  progress from above 0 down to 0.
\<close>

definition hide_completes :: "real \<Rightarrow> real \<Rightarrow> CardPanel \<Rightarrow> bool" where
  "hide_completes v dt p \<longleftrightarrow>
     isAnimating p \<and> hiding p \<and> delayLeft p \<le> dt \<and> 0 < animationProgress p \<and>
     animationProgress p \<le> (dt - delayLeft p) * v"

text \<open>
  The invariant behind the discipline: the record of calls obeys it so far, and whenever
  the header panel has positive progress or is on its way in, a \<open>show\<close> of the header is
  pending.
\<close>

definition discipline :: "CardPanel card \<Rightarrow> bool" where
  "discipline s \<longleftrightarrow>
     once_per_reveal False (calls s) \<and>
     ((0 < animationProgress (header s) \<or> (isAnimating (header s) \<and> \<not> hiding (header s)))
        \<longrightarrow> pending_after False (calls s))"

text \<open>A card whose header is hiding, past its delay, with 0.4 of its progress left.\<close>

definition card_hiding :: "CardPanel card" where
  "card_hiding =
     card0\<lparr>header := (header card0)\<lparr>animationProgress := 0.4, isAnimating := True,
                hiding := True\<rparr>,
           el_visible := True\<rparr>"

text \<open>
  A session on the page: the card is revealed and shown, the hit region is clicked, the card
  hides, and the hit region is clicked once more on the hidden card.
\<close>

definition acts0 :: "action list" where
  "acts0 = [AddState ''visible'', Frame 0 0.05, Frame 0.05 0.5, Frame 0.55 0.5, CursorUp,
      Frame 1.05 0.3, Frame 1.35 0.3, Frame 1.65 0.3, CursorUp, Frame 1.95 1]"

text \<open>The card of the page after its first reveal.\<close>

definition card_shown :: "CardPanel card" where
  "card_shown = perform (CardPanel_ops 2) page (AddState ''visible'') card0"

section \<open>Properties\<close>

subsection \<open>What each method does, as one state update\<close>

declare onShow.simps [simp del] headerText_addState.simps [simp del]
  stateadded_listener.simps [simp del]

declare onHide.simps [simp del] el_removeState.simps [simp del]
  headerText_removeState.simps [simp del] stateremoved_listener.simps [simp del]

lemmas entity_defs =
  called_def scene_addState_def scene_removeState_def el_setVisible_def el_setPosition_def
  dummy_setPosition_def dummy_getWorldPosition_def

lemmas mesh_defs =
  background_show_def background_hide_def background_tick_def
  header_show_def header_hide_def header_tick_def

lemma fold_header_listener:
  "fold header_listener evs s = s\<lparr>calls := calls s @ passed_on evs\<rparr>"
  by (induction evs arbitrary: s) (simp_all add: passed_on_def header_listener_def called_def)

lemma tick_eq:
  "tick M t dt s =
     s\<lparr>background := fst (tick_mesh M dt (background s)),
       header := fst (tick_mesh M dt (header s)),
       el_visible := 0 < animIn M (fst (tick_mesh M dt (header s))),
       calls := calls s @ [MeshTick Background dt, MeshTick Header dt]
                @ passed_on (snd (tick_mesh M dt (header s)))
                @ [ElSetVisible (0 < animIn M (fst (tick_mesh M dt (header s))))]\<rparr>"
  by (simp add: tick_def entity_defs mesh_defs fold_header_listener Let_def split_beta)

text \<open>
  A run of \<open>onShow\<close> with no nested run: the title has the state already, or \<open>ga\<close> fails
  in the listener that the title's event runs.
\<close>

lemma onShow_single:
  assumes "\<not> (''visible'' \<notin> headerText_states s \<and> ga_global g = GaReturns)"
  shows "onShow M g s =
     s\<lparr>background := fst (show_mesh M [0.25, 0.05] (background s)),
       header := fst (show_mesh M [0.05] (header s)),
       scene_states := insert ''modal'' (scene_states s),
       headerText_states := insert ''visible'' (headerText_states s),
       dummy_position := (0, 0, getCardZOffset g),
       el_position := getWorldPosition g (0, 0, getCardZOffset g),
       calls := calls s @
         [SceneAddState ''modal'', HeaderTextAddState ''visible'',
          MeshShow Background [0.25, 0.05], MeshShow Header [0.05]]
         @ passed_on (snd (show_mesh M [0.05] (header s)))
         @ [DummySetPosition (0, 0, getCardZOffset g), DummyGetWorldPosition,
            ElSetPosition (getWorldPosition g (0, 0, getCardZOffset g)),
            LookAtTargetUpdate]\<rparr>"
proof (cases "''visible'' \<in> headerText_states s")
  case True
  then have "insert ''visible'' (headerText_states s) = headerText_states s"
    by blast
  with True show ?thesis
    by (simp add: onShow.simps headerText_addState.simps entity_defs mesh_defs
        fold_header_listener Let_def split_beta)
next
  case False
  with assms have "ga_global g \<noteq> GaReturns"
    by simp
  with False show ?thesis
    by (cases "ga_global g")
      (simp_all add: onShow.simps headerText_addState.simps stateadded_listener.simps ga_def
        swallow_def entity_defs mesh_defs fold_header_listener Let_def split_beta)
qed

text \<open>A run of \<open>onShow\<close> with its nested run: the first reveal.\<close>

lemma onShow_nested:
  assumes "''visible'' \<notin> headerText_states s" and "ga_global g = GaReturns"
  shows "onShow M g s =
     s\<lparr>background :=
         fst (show_mesh M [0.25, 0.05] (fst (show_mesh M [0.25, 0.05] (background s)))),
       header := fst (show_mesh M [0.05] (fst (show_mesh M [0.05] (header s)))),
       scene_states := insert ''modal'' (scene_states s),
       headerText_states := insert ''visible'' (headerText_states s),
       dummy_position := (0, 0, getCardZOffset g),
       el_position := getWorldPosition g (0, 0, getCardZOffset g),
       calls := calls s @
         [SceneAddState ''modal'', HeaderTextAddState ''visible'',
          Ga [''send'', ''event'', ''orientation-card'', ''opened'', ''''],
          SceneAddState ''modal'', HeaderTextAddState ''visible'',
          MeshShow Background [0.25, 0.05], MeshShow Header [0.05]]
         @ passed_on (snd (show_mesh M [0.05] (header s)))
         @ [DummySetPosition (0, 0, getCardZOffset g), DummyGetWorldPosition,
            ElSetPosition (getWorldPosition g (0, 0, getCardZOffset g)),
            LookAtTargetUpdate,
            MeshShow Background [0.25, 0.05], MeshShow Header [0.05]]
         @ passed_on (snd (show_mesh M [0.05] (fst (show_mesh M [0.05] (header s)))))
         @ [DummySetPosition (0, 0, getCardZOffset g), DummyGetWorldPosition,
            ElSetPosition (getWorldPosition g (0, 0, getCardZOffset g)),
            LookAtTargetUpdate]\<rparr>"
proof -
  let ?s1 = "s\<lparr>scene_states := insert ''modal'' (scene_states s),
               headerText_states := insert ''visible'' (headerText_states s),
               calls := calls s @
                 [SceneAddState ''modal'', HeaderTextAddState ''visible'',
                  Ga [''send'', ''event'', ''orientation-card'', ''opened'', '''']]\<rparr>"
  have step: "headerText_addState M g ''visible'' (scene_addState ''modal'' s) = onShow M g ?s1"
    using assms
    by (simp add: headerText_addState.simps stateadded_listener.simps ga_def swallow_def
        entity_defs)
  have inner: "onShow M g ?s1 =
      ?s1\<lparr>background := fst (show_mesh M [0.25, 0.05] (background s)),
         header := fst (show_mesh M [0.05] (header s)),
         dummy_position := (0, 0, getCardZOffset g),
         el_position := getWorldPosition g (0, 0, getCardZOffset g),
         calls := calls ?s1 @
           [SceneAddState ''modal'', HeaderTextAddState ''visible'',
            MeshShow Background [0.25, 0.05], MeshShow Header [0.05]]
           @ passed_on (snd (show_mesh M [0.05] (header s)))
           @ [DummySetPosition (0, 0, getCardZOffset g), DummyGetWorldPosition,
              ElSetPosition (getWorldPosition g (0, 0, getCardZOffset g)),
              LookAtTargetUpdate]\<rparr>"
    using onShow_single [of ?s1 g M] by simp
  show ?thesis
    unfolding onShow.simps [of M g s] Let_def step inner
    by (simp add: entity_defs mesh_defs fold_header_listener split_beta)
qed

text \<open>
  A run of \<open>onHide\<close>, by the states that \<open>el\<close> and the title have when it starts: no nested
  run when neither has \<open>visible\<close>, one when exactly one of them has it, two (one inside the
  other) when both have it.
\<close>

lemma onHide_none:
  assumes "''visible'' \<notin> el_states s" and "''visible'' \<notin> headerText_states s"
  shows "onHide M s =
     s\<lparr>background := fst (hide_mesh M [] (background s)),
       header := fst (hide_mesh M [0.05, 0.25] (header s)),
       scene_states := scene_states s - {''modal''},
       calls := calls s @
         [SceneRemoveState ''modal'', ElRemoveState ''visible'',
          HeaderTextRemoveState ''visible'', MeshHide Background [],
          MeshHide Header [0.05, 0.25]]
         @ passed_on (snd (hide_mesh M [0.05, 0.25] (header s)))\<rparr>"
  using assms
  by (simp add: onHide.simps el_removeState.simps headerText_removeState.simps entity_defs
      mesh_defs fold_header_listener Let_def split_beta)

lemma onHide_title:
  assumes "''visible'' \<notin> el_states s" and "''visible'' \<in> headerText_states s"
  shows "onHide M s =
     s\<lparr>background := fst (hide_mesh M [] (fst (hide_mesh M [] (background s)))),
       header := fst (hide_mesh M [0.05, 0.25] (fst (hide_mesh M [0.05, 0.25] (header s)))),
       scene_states := scene_states s - {''modal''},
       headerText_states := headerText_states s - {''visible''},
       calls := calls s @
         [SceneRemoveState ''modal'', ElRemoveState ''visible'',
          HeaderTextRemoveState ''visible'',
          SceneRemoveState ''modal'', ElRemoveState ''visible'',
          HeaderTextRemoveState ''visible'', MeshHide Background [],
          MeshHide Header [0.05, 0.25]]
         @ passed_on (snd (hide_mesh M [0.05, 0.25] (header s)))
         @ [MeshHide Background [], MeshHide Header [0.05, 0.25]]
         @ passed_on (snd (hide_mesh M [0.05, 0.25]
             (fst (hide_mesh M [0.05, 0.25] (header s)))))\<rparr>"
proof -
  let ?s1 = "s\<lparr>scene_states := scene_states s - {''modal''},
               headerText_states := headerText_states s - {''visible''},
               calls := calls s @
                 [SceneRemoveState ''modal'', ElRemoveState ''visible'',
                  HeaderTextRemoveState ''visible'']\<rparr>"
  have first: "el_removeState M ''visible'' (scene_removeState ''modal'' s) =
      s\<lparr>scene_states := scene_states s - {''modal''},
        calls := calls s @ [SceneRemoveState ''modal'', ElRemoveState ''visible'']\<rparr>"
    using assms by (simp add: el_removeState.simps entity_defs)
  have step: "headerText_removeState M ''visible''
      (s\<lparr>scene_states := scene_states s - {''modal''},
         calls := calls s @ [SceneRemoveState ''modal'', ElRemoveState ''visible'']\<rparr>)
      = onHide M ?s1"
    using assms
    by (simp add: headerText_removeState.simps stateremoved_listener.simps entity_defs)
  have inner: "onHide M ?s1 =
      ?s1\<lparr>background := fst (hide_mesh M [] (background s)),
         header := fst (hide_mesh M [0.05, 0.25] (header s)),
         calls := calls ?s1 @
           [SceneRemoveState ''modal'', ElRemoveState ''visible'',
            HeaderTextRemoveState ''visible'', MeshHide Background [],
            MeshHide Header [0.05, 0.25]]
           @ passed_on (snd (hide_mesh M [0.05, 0.25] (header s)))\<rparr>"
    using assms onHide_none [of ?s1 M] by simp
  show ?thesis
    unfolding onHide.simps [of M s] Let_def first step inner
    by (simp add: entity_defs mesh_defs fold_header_listener split_beta)
qed

lemma onHide_el:
  assumes "''visible'' \<in> el_states s" and "''visible'' \<notin> headerText_states s"
  shows "onHide M s =
     s\<lparr>background := fst (hide_mesh M [] (fst (hide_mesh M [] (background s)))),
       header := fst (hide_mesh M [0.05, 0.25] (fst (hide_mesh M [0.05, 0.25] (header s)))),
       scene_states := scene_states s - {''modal''},
       el_states := el_states s - {''visible''},
       calls := calls s @
         [SceneRemoveState ''modal'', ElRemoveState ''visible'',
          SceneRemoveState ''modal'', ElRemoveState ''visible'',
          HeaderTextRemoveState ''visible'', MeshHide Background [],
          MeshHide Header [0.05, 0.25]]
         @ passed_on (snd (hide_mesh M [0.05, 0.25] (header s)))
         @ [HeaderTextRemoveState ''visible'', MeshHide Background [],
            MeshHide Header [0.05, 0.25]]
         @ passed_on (snd (hide_mesh M [0.05, 0.25]
             (fst (hide_mesh M [0.05, 0.25] (header s)))))\<rparr>"
proof -
  let ?s1 = "s\<lparr>scene_states := scene_states s - {''modal''},
               el_states := el_states s - {''visible''},
               calls := calls s @ [SceneRemoveState ''modal'', ElRemoveState ''visible'']\<rparr>"
  have step: "el_removeState M ''visible'' (scene_removeState ''modal'' s) = onHide M ?s1"
    using assms by (simp add: el_removeState.simps stateremoved_listener.simps entity_defs)
  have inner: "onHide M ?s1 =
      ?s1\<lparr>background := fst (hide_mesh M [] (background s)),
         header := fst (hide_mesh M [0.05, 0.25] (header s)),
         calls := calls ?s1 @
           [SceneRemoveState ''modal'', ElRemoveState ''visible'',
            HeaderTextRemoveState ''visible'', MeshHide Background [],
            MeshHide Header [0.05, 0.25]]
           @ passed_on (snd (hide_mesh M [0.05, 0.25] (header s)))\<rparr>"
    using assms onHide_none [of ?s1 M] by simp
  show ?thesis
    unfolding onHide.simps [of M s] Let_def step inner
    using assms
    by (simp add: headerText_removeState.simps entity_defs mesh_defs fold_header_listener
        split_beta)
qed

lemma onHide_both:
  assumes "''visible'' \<in> el_states s" and "''visible'' \<in> headerText_states s"
  shows "onHide M s =
     s\<lparr>background :=
         fst (hide_mesh M [] (fst (hide_mesh M [] (fst (hide_mesh M [] (background s)))))),
       header :=
         fst (hide_mesh M [0.05, 0.25]
           (fst (hide_mesh M [0.05, 0.25] (fst (hide_mesh M [0.05, 0.25] (header s)))))),
       scene_states := scene_states s - {''modal''},
       el_states := el_states s - {''visible''},
       headerText_states := headerText_states s - {''visible''},
       calls := calls s @
         [SceneRemoveState ''modal'', ElRemoveState ''visible'',
          SceneRemoveState ''modal'', ElRemoveState ''visible'',
          HeaderTextRemoveState ''visible'',
          SceneRemoveState ''modal'', ElRemoveState ''visible'',
          HeaderTextRemoveState ''visible'', MeshHide Background [],
          MeshHide Header [0.05, 0.25]]
         @ passed_on (snd (hide_mesh M [0.05, 0.25] (header s)))
         @ [MeshHide Background [], MeshHide Header [0.05, 0.25]]
         @ passed_on (snd (hide_mesh M [0.05, 0.25]
             (fst (hide_mesh M [0.05, 0.25] (header s)))))
         @ [HeaderTextRemoveState ''visible'', MeshHide Background [],
            MeshHide Header [0.05, 0.25]]
         @ passed_on (snd (hide_mesh M [0.05, 0.25]
             (fst (hide_mesh M [0.05, 0.25]
               (fst (hide_mesh M [0.05, 0.25] (header s)))))))\<rparr>"
proof -
  let ?s1 = "s\<lparr>scene_states := scene_states s - {''modal''},
               el_states := el_states s - {''visible''},
               calls := calls s @ [SceneRemoveState ''modal'', ElRemoveState ''visible'']\<rparr>"
  have step: "el_removeState M ''visible'' (scene_removeState ''modal'' s) = onHide M ?s1"
    using assms by (simp add: el_removeState.simps stateremoved_listener.simps entity_defs)
  have inner: "onHide M ?s1 =
      ?s1\<lparr>background := fst (hide_mesh M [] (fst (hide_mesh M [] (background s)))),
         header :=
           fst (hide_mesh M [0.05, 0.25] (fst (hide_mesh M [0.05, 0.25] (header s)))),
         headerText_states := headerText_states s - {''visible''},
         calls := calls ?s1 @
           [SceneRemoveState ''modal'', ElRemoveState ''visible'',
            HeaderTextRemoveState ''visible'',
            SceneRemoveState ''modal'', ElRemoveState ''visible'',
            HeaderTextRemoveState ''visible'', MeshHide Background [],
            MeshHide Header [0.05, 0.25]]
           @ passed_on (snd (hide_mesh M [0.05, 0.25] (header s)))
           @ [MeshHide Background [], MeshHide Header [0.05, 0.25]]
           @ passed_on (snd (hide_mesh M [0.05, 0.25]
               (fst (hide_mesh M [0.05, 0.25] (header s)))))\<rparr>"
    using assms onHide_title [of ?s1 M] by simp
  show ?thesis
    unfolding onHide.simps [of M s] Let_def step inner
    by (simp add: headerText_removeState.simps entity_defs mesh_defs fold_header_listener
        split_beta)
qed

subsection \<open>Auxiliary facts\<close>

lemma panel_ops_simps [simp]:
  "show_mesh (CardPanel_ops v) = panel_show"
  "hide_mesh (CardPanel_ops v) = panel_hide"
  "tick_mesh (CardPanel_ops v) = panel_advance v"
  "animIn (CardPanel_ops v) = animationProgress"
  "new_CardMesh (CardPanel_ops v) = panel_new"
  "setPosition (CardPanel_ops v) = panel_setPosition"
  by (simp_all add: CardPanel_ops_def)

lemma card0_eq:
  "card0 = \<lparr> background = panel_new 2 1,
             header = panel_setPosition 0 HEADER_Y_OFFSET (panel_new 2 HEADER_HEIGHT),
             scene_states = {}, el_states = {}, headerText_states = {},
             dummy_position = (0, 0, 0), el_position = (0, 0, 0), el_visible = True,
             calls = [] \<rparr>"
  by (simp add: card0_def init_def blank_def orientation_def)

lemma card_shown_eq:
  "card_shown =
     card0\<lparr>background := fst (panel_show [0.25, 0.05] (fst (panel_show [0.25, 0.05] (panel_new 2 1)))),
           header := fst (panel_show [0.05] (fst (panel_show [0.05]
             (panel_setPosition 0 HEADER_Y_OFFSET (panel_new 2 HEADER_HEIGHT))))),
           scene_states := {''modal''}, el_states := {''visible''},
           headerText_states := {''visible''},
           dummy_position := (0, 0, - 2), el_position := (1, 1.6, 1),
           calls :=
             [Ga [''send'', ''event'', ''orientation-card'', ''opened'', ''''],
              SceneAddState ''modal'', HeaderTextAddState ''visible'',
              Ga [''send'', ''event'', ''orientation-card'', ''opened'', ''''],
              SceneAddState ''modal'', HeaderTextAddState ''visible'',
              MeshShow Background [0.25, 0.05], MeshShow Header [0.05],
              DummySetPosition (0, 0, - 2), DummyGetWorldPosition,
              ElSetPosition (1, 1.6, 1), LookAtTargetUpdate,
              MeshShow Background [0.25, 0.05], MeshShow Header [0.05],
              DummySetPosition (0, 0, - 2), DummyGetWorldPosition,
              ElSetPosition (1, 1.6, 1), LookAtTargetUpdate]\<rparr>"
  by (simp add: card_shown_def card0_eq page_def stateadded_listener.simps ga_def swallow_def
      called_def onShow_nested panel_show_def passed_on_def)

lemma CursorUp_returns:
  "ga_global g = GaReturns \<Longrightarrow>
   swallow s (raycaster_cursor_up_listener M g s) =
     onHide M (s\<lparr>calls := calls s @
       [Ga [''send'', ''event'', ''orientation-card'', ''dismissed'', '''']]\<rparr>)"
  by (simp add: raycaster_cursor_up_listener_def ga_def swallow_def called_def)

lemma CursorUp_fails:
  "ga_global g \<noteq> GaReturns \<Longrightarrow> swallow s (raycaster_cursor_up_listener M g s) = s"
  by (cases "ga_global g") (simp_all add: raycaster_cursor_up_listener_def ga_def swallow_def)

lemma show_timings_append [simp]: "show_timings (xs @ ys) = show_timings xs @ show_timings ys"
  by (simp add: show_timings_def)

lemma hide_timings_append [simp]: "hide_timings (xs @ ys) = hide_timings xs @ hide_timings ys"
  by (simp add: hide_timings_def)

lemma show_timings_passed_on [simp]: "show_timings (passed_on evs) = []"
  by (induction evs) (auto simp add: show_timings_def passed_on_def)

lemma hide_timings_passed_on [simp]: "hide_timings (passed_on evs) = []"
  by (induction evs) (auto simp add: hide_timings_def passed_on_def)

lemma show_timings_Cons [simp]: "show_timings (c # cs) = show_timing c @ show_timings cs"
  by (simp add: show_timings_def)

lemma hide_timings_Cons [simp]: "hide_timings (c # cs) = hide_timing c @ hide_timings cs"
  by (simp add: hide_timings_def)

lemma show_timings_Nil [simp]: "show_timings [] = []"
  by (simp add: show_timings_def)

lemma hide_timings_Nil [simp]: "hide_timings [] = []"
  by (simp add: hide_timings_def)

lemma timings_onShow:
  "show_timings (since s (onShow M g s)) =
     (if ''visible'' \<notin> headerText_states s \<and> ga_global g = GaReturns
      then [(Background, 0.25, 0.05), (Header, 0.05, 0),
            (Background, 0.25, 0.05), (Header, 0.05, 0)]
      else [(Background, 0.25, 0.05), (Header, 0.05, 0)])"
proof (cases "''visible'' \<notin> headerText_states s \<and> ga_global g = GaReturns")
  case True
  then show ?thesis
    by (simp add: since_def onShow_nested delaySeconds_def staggerSeconds_def)
next
  case False
  then show ?thesis
    by (simp add: since_def onShow_single [OF False] delaySeconds_def staggerSeconds_def)
qed

lemma timings_onHide:
  "hide_timings (since s (onHide M s)) =
     (if ''visible'' \<in> el_states s \<and> ''visible'' \<in> headerText_states s
      then [(Background, 0, 0), (Header, 0.05, 0.25), (Background, 0, 0), (Header, 0.05, 0.25),
            (Background, 0, 0), (Header, 0.05, 0.25)]
      else if ''visible'' \<in> el_states s \<or> ''visible'' \<in> headerText_states s
      then [(Background, 0, 0), (Header, 0.05, 0.25), (Background, 0, 0), (Header, 0.05, 0.25)]
      else [(Background, 0, 0), (Header, 0.05, 0.25)])"
  by (cases "''visible'' \<in> el_states s"; cases "''visible'' \<in> headerText_states s")
    (simp_all add: since_def onHide_none onHide_el onHide_title onHide_both delaySeconds_def
      staggerSeconds_def)

lemma not_mirrored:
  assumes "set (show_timings cs) = {(Background, 0.25, 0.05), (Header, 0.05, 0)}"
    and "(Background, 0, 0) \<in> set (hide_timings ds)"
  shows "\<not> exact_mirror (show_timings cs) (hide_timings ds)"
proof
  assume "exact_mirror (show_timings cs) (hide_timings ds)"
  then have "set (hide_timings ds) = {(Header, 0.25, 0.05), (Background, 0.05, 0)}"
    by (simp add: exact_mirror_def assms(1))
  with assms(2) show False by simp
qed

lemma mesh_calls_append [simp]: "mesh_calls (xs @ ys) = mesh_calls xs @ mesh_calls ys"
  by (simp add: mesh_calls_def)

lemma mesh_calls_Cons [simp]:
  "mesh_calls (c # cs) = (if transition_call c then c # mesh_calls cs else mesh_calls cs)"
  by (simp add: mesh_calls_def)

lemma mesh_calls_Nil [simp]: "mesh_calls [] = []"
  by (simp add: mesh_calls_def)

lemma mesh_calls_passed_on [simp]: "mesh_calls (passed_on evs) = []"
  by (induction evs) (auto simp add: mesh_calls_def passed_on_def)

lemma mesh_calls_onShow:
  "mesh_calls (since s (onShow M g s)) =
     (if ''visible'' \<notin> headerText_states s \<and> ga_global g = GaReturns
      then [MeshShow Background [0.25, 0.05], MeshShow Header [0.05],
            MeshShow Background [0.25, 0.05], MeshShow Header [0.05]]
      else [MeshShow Background [0.25, 0.05], MeshShow Header [0.05]])"
proof (cases "''visible'' \<notin> headerText_states s \<and> ga_global g = GaReturns")
  case True
  then show ?thesis
    by (simp add: since_def onShow_nested)
next
  case False
  then show ?thesis
    by (simp add: since_def onShow_single [OF False])
qed

lemma mesh_calls_onHide:
  "mesh_calls (since s (onHide M s)) =
     (if ''visible'' \<in> el_states s \<and> ''visible'' \<in> headerText_states s
      then [MeshHide Background [], MeshHide Header [0.05, 0.25],
            MeshHide Background [], MeshHide Header [0.05, 0.25],
            MeshHide Background [], MeshHide Header [0.05, 0.25]]
      else if ''visible'' \<in> el_states s \<or> ''visible'' \<in> headerText_states s
      then [MeshHide Background [], MeshHide Header [0.05, 0.25],
            MeshHide Background [], MeshHide Header [0.05, 0.25]]
      else [MeshHide Background [], MeshHide Header [0.05, 0.25]])"
  by (cases "''visible'' \<in> el_states s"; cases "''visible'' \<in> headerText_states s")
    (simp_all add: since_def onHide_none onHide_el onHide_title onHide_both)

lemma onShow_title_visible: "''visible'' \<in> headerText_states (onShow M g s)"
  by (cases "''visible'' \<notin> headerText_states s \<and> ga_global g = GaReturns")
    (simp_all add: onShow_nested onShow_single)

subsection \<open>The frame tick\<close>

text \<open>
  Claim C1.  On every frame \<open>tick\<close> first advances the background mesh by \<open>dt\<close>, then the
  header mesh by \<open>dt\<close>, and then sets the \<open>visible\<close> attribute of \<open>el\<close> to the truth value
  of "the header's \<open>animIn\<close>, as it is after that advance, is greater than 0".  Nothing in
  \<open>tick\<close> depends on whether a transition is under way, and when the header's progress is 0
  after the advance the flag written in that same tick is false.  (A \<open>hide-complete\<close> that the
  header fires while it advances is passed on before the flag is written.)
\<close>

theorem tick_advances_then_sets_visible:
  "background (tick M t dt s) = fst (tick_mesh M dt (background s)) \<and>
   header (tick M t dt s) = fst (tick_mesh M dt (header s)) \<and>
   el_visible (tick M t dt s) = (animIn M (header (tick M t dt s)) > 0) \<and>
   calls (tick M t dt s) =
     calls s @ [MeshTick Background dt, MeshTick Header dt]
     @ passed_on (snd (tick_mesh M dt (header s)))
     @ [ElSetVisible (animIn M (header (tick M t dt s)) > 0)]"
  by (simp add: tick_eq)

theorem tick_advances_then_sets_visible_witness:
  "animationProgress (header card_hiding) = 0.4 \<and> el_visible card_hiding \<and>
   animIn (CardPanel_ops 2) (header (tick (CardPanel_ops 2) 0 0.3 card_hiding)) = 0 \<and>
   \<not> el_visible (tick (CardPanel_ops 2) 0 0.3 card_hiding) \<and>
   calls (tick (CardPanel_ops 2) 0 0.3 card_hiding) =
     [MeshTick Background 0.3, MeshTick Header 0.3, ElEmit ''hide-complete'', ElSetVisible False]"
  using tick_advances_then_sets_visible [of "CardPanel_ops 2" 0 "0.3" card_hiding]
  by (simp add: card_hiding_def card0_eq panel_advance_def panel_new_def panel_setPosition_def
      passed_on_def Let_def)

subsection \<open>Reveal\<close>

text \<open>
  Claim C2, as the specification states it, fails: a run of \<open>onShow\<close> does not always read
  the anchor exactly once.  On the first reveal of the page the title has no state
  \<open>visible\<close> yet, so adding it runs the listener of \<open>stateadded\<close> on \<open>el\<close>, which calls \<open>ga\<close>
  and \<open>onShow\<close> again before the first \<open>onShow\<close> has reached its \<open>show\<close> calls: the run makes
  seventeen calls, two of them reads of the anchor.
\<close>

theorem onShow_reads_the_anchor_twice:
  "''visible'' \<notin> headerText_states card0 \<and> ga_global page = GaReturns \<and>
   calls (onShow (CardPanel_ops 2) page card0) =
     [SceneAddState ''modal'', HeaderTextAddState ''visible'',
      Ga [''send'', ''event'', ''orientation-card'', ''opened'', ''''],
      SceneAddState ''modal'', HeaderTextAddState ''visible'',
      MeshShow Background [0.25, 0.05], MeshShow Header [0.05],
      DummySetPosition (0, 0, - 2), DummyGetWorldPosition,
      ElSetPosition (1, 1.6, 1), LookAtTargetUpdate,
      MeshShow Background [0.25, 0.05], MeshShow Header [0.05],
      DummySetPosition (0, 0, - 2), DummyGetWorldPosition,
      ElSetPosition (1, 1.6, 1), LookAtTargetUpdate] \<and>
   length (filter (\<lambda>c. c = DummyGetWorldPosition)
     (calls (onShow (CardPanel_ops 2) page card0))) = 2"
  by (simp add: card0_eq page_def onShow_nested panel_show_def passed_on_def)

text \<open>
  Claim C2, amended.  Every run of \<open>onShow\<close> makes these calls, in this order: it adds the
  state \<open>modal\<close> to the scene (a), adds the state \<open>visible\<close> to the title text (b), plays the
  way in with \<open>background.show( 0.25, 0.05 )\<close> and \<open>header.show( 0.05 )\<close>, that is delay 0.25
  and stagger 0.05 for the background and delay 0.05 for the header (c; the source calls the
  background first), sets the depth offset of the platform on the positioning dummy, reads
  the world position of the dummy and sets the position of \<open>el\<close> to it (d), and runs the
  update of \<open>look-at-target\<close> before it returns (e).  When the title does not have \<open>visible\<close>
  before (b) and \<open>ga\<close> returns, step (b) runs the listener of \<open>stateadded\<close>, and with it \<open>ga\<close>
  and a whole nested \<open>onShow\<close>, between (b) and (c): in such a run, which the first reveal
  is, the \<open>show\<close> calls, the read of the anchor, the position and the update are each made
  twice.  In every other run they are made once.
\<close>

theorem onShow_effects_in_order:
  "calls (onShow M g s) =
     calls s @ [SceneAddState ''modal'', HeaderTextAddState ''visible'']
     @ (if ''visible'' \<notin> headerText_states s \<and> ga_global g = GaReturns
        then [Ga [''send'', ''event'', ''orientation-card'', ''opened'', ''''],
              SceneAddState ''modal'', HeaderTextAddState ''visible'',
              MeshShow Background [0.25, 0.05], MeshShow Header [0.05]]
             @ passed_on (snd (show_mesh M [0.05] (header s)))
             @ [DummySetPosition (0, 0, getCardZOffset g), DummyGetWorldPosition,
                ElSetPosition (getWorldPosition g (0, 0, getCardZOffset g)),
                LookAtTargetUpdate]
        else [])
     @ [MeshShow Background [0.25, 0.05], MeshShow Header [0.05]]
     @ passed_on (snd (show_mesh M [0.05]
         (if ''visible'' \<notin> headerText_states s \<and> ga_global g = GaReturns
          then fst (show_mesh M [0.05] (header s)) else header s)))
     @ [DummySetPosition (0, 0, getCardZOffset g), DummyGetWorldPosition,
        ElSetPosition (getWorldPosition g (0, 0, getCardZOffset g)), LookAtTargetUpdate] \<and>
   header (onShow M g s) =
     fst (show_mesh M [0.05]
       (if ''visible'' \<notin> headerText_states s \<and> ga_global g = GaReturns
        then fst (show_mesh M [0.05] (header s)) else header s)) \<and>
   background (onShow M g s) =
     fst (show_mesh M [0.25, 0.05]
       (if ''visible'' \<notin> headerText_states s \<and> ga_global g = GaReturns
        then fst (show_mesh M [0.25, 0.05] (background s)) else background s)) \<and>
   scene_states (onShow M g s) = insert ''modal'' (scene_states s) \<and>
   headerText_states (onShow M g s) = insert ''visible'' (headerText_states s) \<and>
   el_states (onShow M g s) = el_states s \<and>
   dummy_position (onShow M g s) = (0, 0, getCardZOffset g) \<and>
   el_position (onShow M g s) = getWorldPosition g (0, 0, getCardZOffset g) \<and>
   delaySeconds [0.05] = 0.05 \<and> staggerSeconds [0.05] = 0 \<and>
   delaySeconds [0.25, 0.05] = 0.25 \<and> staggerSeconds [0.25, 0.05] = 0.05"
proof (cases "''visible'' \<notin> headerText_states s \<and> ga_global g = GaReturns")
  case True
  then show ?thesis
    by (simp add: onShow_nested delaySeconds_def staggerSeconds_def)
next
  case False
  then show ?thesis
    by (auto simp add: onShow_single [OF False] delaySeconds_def staggerSeconds_def)
qed

subsection \<open>Dismiss\<close>

text \<open>
  Claim C3.  Every run of \<open>onHide\<close> removes the state \<open>modal\<close> from the scene (a), the state
  \<open>visible\<close> from \<open>el\<close> (b) and the state \<open>visible\<close> from the title text (c), and plays the
  way out with \<open>background.hide()\<close>, which carries no delay, and
  \<open>header.hide( 0.05, 0.25 )\<close>, delay 0.05 and stagger 0.25 (d), so the background is the
  first to hide.  The calls come in that order, and both meshes have received their \<open>hide\<close>
  when the run ends.  A removal that finds its state present runs the listener of
  \<open>stateremoved\<close>, and with it a nested \<open>onHide\<close>, right after the removal: after (b) when
  \<open>el\<close> had \<open>visible\<close> (the title's state is then removed inside that nested run), after (c)
  when only the title had it.
\<close>

theorem onHide_effects:
  "calls (onHide M s) =
     calls s @ [SceneRemoveState ''modal'', ElRemoveState ''visible'']
     @ (if ''visible'' \<in> el_states s
        then [SceneRemoveState ''modal'', ElRemoveState ''visible'',
              HeaderTextRemoveState ''visible'']
             @ (if ''visible'' \<in> headerText_states s
                then [SceneRemoveState ''modal'', ElRemoveState ''visible'',
                      HeaderTextRemoveState ''visible'', MeshHide Background [],
                      MeshHide Header [0.05, 0.25]]
                     @ passed_on (snd (hide_mesh M [0.05, 0.25] (header s)))
                else [])
             @ [MeshHide Background [], MeshHide Header [0.05, 0.25]]
             @ passed_on (snd (hide_mesh M [0.05, 0.25]
                 (if ''visible'' \<in> headerText_states s
                  then fst (hide_mesh M [0.05, 0.25] (header s)) else header s)))
        else [])
     @ [HeaderTextRemoveState ''visible'']
     @ (if ''visible'' \<notin> el_states s \<and> ''visible'' \<in> headerText_states s
        then [SceneRemoveState ''modal'', ElRemoveState ''visible'',
              HeaderTextRemoveState ''visible'', MeshHide Background [],
              MeshHide Header [0.05, 0.25]]
             @ passed_on (snd (hide_mesh M [0.05, 0.25] (header s)))
        else [])
     @ [MeshHide Background [], MeshHide Header [0.05, 0.25]]
     @ passed_on (snd (hide_mesh M [0.05, 0.25]
         (if ''visible'' \<in> el_states s \<and> ''visible'' \<in> headerText_states s
          then fst (hide_mesh M [0.05, 0.25] (fst (hide_mesh M [0.05, 0.25] (header s))))
          else if ''visible'' \<in> el_states s \<or> ''visible'' \<in> headerText_states s
          then fst (hide_mesh M [0.05, 0.25] (header s))
          else header s))) \<and>
   background (onHide M s) =
     fst (hide_mesh M []
       (if ''visible'' \<in> el_states s \<and> ''visible'' \<in> headerText_states s
        then fst (hide_mesh M [] (fst (hide_mesh M [] (background s))))
        else if ''visible'' \<in> el_states s \<or> ''visible'' \<in> headerText_states s
        then fst (hide_mesh M [] (background s))
        else background s)) \<and>
   header (onHide M s) =
     fst (hide_mesh M [0.05, 0.25]
       (if ''visible'' \<in> el_states s \<and> ''visible'' \<in> headerText_states s
        then fst (hide_mesh M [0.05, 0.25] (fst (hide_mesh M [0.05, 0.25] (header s))))
        else if ''visible'' \<in> el_states s \<or> ''visible'' \<in> headerText_states s
        then fst (hide_mesh M [0.05, 0.25] (header s))
        else header s)) \<and>
   scene_states (onHide M s) = scene_states s - {''modal''} \<and>
   el_states (onHide M s) = el_states s - {''visible''} \<and>
   headerText_states (onHide M s) = headerText_states s - {''visible''} \<and>
   delaySeconds [] = 0 \<and> staggerSeconds [] = 0 \<and>
   delaySeconds [0.05, 0.25] = 0.05 \<and> staggerSeconds [0.05, 0.25] = 0.25"
  by (cases "''visible'' \<in> el_states s"; cases "''visible'' \<in> headerText_states s")
    (simp_all add: onHide_none onHide_el onHide_title onHide_both delaySeconds_def
      staggerSeconds_def)

theorem onHide_effects_witness:
  "calls (onHide (CardPanel_ops 2) card0) =
     [SceneRemoveState ''modal'', ElRemoveState ''visible'',
      HeaderTextRemoveState ''visible'', MeshHide Background [],
      MeshHide Header [0.05, 0.25]] \<and>
   hiding (background (onHide (CardPanel_ops 2) card0)) \<and>
   delayLeft (background (onHide (CardPanel_ops 2) card0)) = 0 \<and>
   hiding (header (onHide (CardPanel_ops 2) card0)) \<and>
   delayLeft (header (onHide (CardPanel_ops 2) card0)) = 0.3 \<and>
   since card_shown (onHide (CardPanel_ops 2) card_shown) =
     [SceneRemoveState ''modal'', ElRemoveState ''visible'',
      SceneRemoveState ''modal'', ElRemoveState ''visible'',
      HeaderTextRemoveState ''visible'',
      SceneRemoveState ''modal'', ElRemoveState ''visible'',
      HeaderTextRemoveState ''visible'', MeshHide Background [],
      MeshHide Header [0.05, 0.25],
      MeshHide Background [], MeshHide Header [0.05, 0.25],
      HeaderTextRemoveState ''visible'', MeshHide Background [],
      MeshHide Header [0.05, 0.25]] \<and>
   scene_states (onHide (CardPanel_ops 2) card_shown) = {} \<and>
   el_states (onHide (CardPanel_ops 2) card_shown) = {} \<and>
   headerText_states (onHide (CardPanel_ops 2) card_shown) = {} \<and>
   hiding (header (onHide (CardPanel_ops 2) card_shown))"
  using onHide_effects [of "CardPanel_ops 2" card0]
    onHide_effects [of "CardPanel_ops 2" card_shown]
  by (simp add: since_def card_shown_eq card0_eq panel_hide_def panel_show_def passed_on_def
      panel_new_def panel_setPosition_def delaySeconds_def staggerSeconds_def)

text \<open>
  Claim C9, as the specification states it, fails twice over.  On the card of the page
  after its reveal, \<open>el\<close> and the title both have the state \<open>visible\<close>, and one click makes
  the \<open>hide\<close> calls three times, not twice: the removal of the title's state, inside the
  second run of \<open>onHide\<close>, runs the listener of \<open>stateremoved\<close> once more.  And the click
  does not call \<open>onHide\<close> unconditionally: when \<open>ga\<close> is missing the listener ends at the call
  of \<open>ga\<close> and nothing is hidden.
\<close>

theorem click_on_shown_card_hides_three_times:
  "''visible'' \<in> el_states card_shown \<and>
   mesh_calls (since card_shown (perform (CardPanel_ops 2) page CursorUp card_shown)) =
     [MeshHide Background [], MeshHide Header [0.05, 0.25],
      MeshHide Background [], MeshHide Header [0.05, 0.25],
      MeshHide Background [], MeshHide Header [0.05, 0.25]] \<and>
   perform (CardPanel_ops 2) (page\<lparr>ga_global := GaUndefined\<rparr>) CursorUp card_shown
     = card_shown"
proof -
  have a: "ga_global page = GaReturns"
    by (simp add: page_def)
  have b: "ga_global (page\<lparr>ga_global := GaUndefined\<rparr>) \<noteq> GaReturns"
    by simp
  show ?thesis
    unfolding perform.simps CursorUp_returns [OF a] CursorUp_fails [OF b]
    by (simp add: since_def card_shown_eq card0_eq onHide_both panel_hide_def passed_on_def)
qed

text \<open>
  Claim C9, amended.  The listener of the hit region calls \<open>ga\<close> and then, when \<open>ga\<close> has
  returned, \<open>onHide\<close>, without looking at the state of the card; when \<open>ga\<close> is missing or
  throws, the click changes nothing.  When \<open>el\<close> has the state \<open>visible\<close> at the click,
  \<open>onHide\<close> removes that state, the listener of \<open>stateremoved\<close> runs \<open>onHide\<close> a second time
  inside the first, and, when the title has the state \<open>visible\<close> as well, the removal of the
  title's state inside that second run runs \<open>onHide\<close> a third time: the removals of the
  states and the two \<open>hide\<close> calls are all made twice for the one click when only \<open>el\<close> has
  the state, and three times when the title has it too.
\<close>

theorem click_runs_onHide_again:
  "perform M g CursorUp s =
     (if ga_global g = GaReturns
      then onHide M (called (Ga [''send'', ''event'', ''orientation-card'', ''dismissed'', '''']) s)
      else s) \<and>
   (''visible'' \<in> el_states s \<and> ga_global g = GaReturns \<longrightarrow>
      calls (perform M g CursorUp s) =
        calls s @ [Ga [''send'', ''event'', ''orientation-card'', ''dismissed'', '''']]
        @ [SceneRemoveState ''modal'', ElRemoveState ''visible'']
        @ [SceneRemoveState ''modal'', ElRemoveState ''visible'',
           HeaderTextRemoveState ''visible'']
        @ (if ''visible'' \<in> headerText_states s
           then [SceneRemoveState ''modal'', ElRemoveState ''visible'',
                 HeaderTextRemoveState ''visible'', MeshHide Background [],
                 MeshHide Header [0.05, 0.25]]
                @ passed_on (snd (hide_mesh M [0.05, 0.25] (header s)))
           else [])
        @ [MeshHide Background [], MeshHide Header [0.05, 0.25]]
        @ passed_on (snd (hide_mesh M [0.05, 0.25]
            (if ''visible'' \<in> headerText_states s
             then fst (hide_mesh M [0.05, 0.25] (header s)) else header s)))
        @ [HeaderTextRemoveState ''visible'', MeshHide Background [],
           MeshHide Header [0.05, 0.25]]
        @ passed_on (snd (hide_mesh M [0.05, 0.25]
            (if ''visible'' \<in> headerText_states s
             then fst (hide_mesh M [0.05, 0.25] (fst (hide_mesh M [0.05, 0.25] (header s))))
             else fst (hide_mesh M [0.05, 0.25] (header s))))) \<and>
      background (perform M g CursorUp s) =
        fst (hide_mesh M []
          (if ''visible'' \<in> headerText_states s
           then fst (hide_mesh M [] (fst (hide_mesh M [] (background s))))
           else fst (hide_mesh M [] (background s)))) \<and>
      header (perform M g CursorUp s) =
        fst (hide_mesh M [0.05, 0.25]
          (if ''visible'' \<in> headerText_states s
           then fst (hide_mesh M [0.05, 0.25] (fst (hide_mesh M [0.05, 0.25] (header s))))
           else fst (hide_mesh M [0.05, 0.25] (header s)))) \<and>
      ''visible'' \<notin> el_states (perform M g CursorUp s) \<and>
      ''visible'' \<notin> headerText_states (perform M g CursorUp s) \<and>
      ''modal'' \<notin> scene_states (perform M g CursorUp s))"
proof (cases "ga_global g = GaReturns")
  case True
  show ?thesis
    by (cases "''visible'' \<in> headerText_states s")
      (auto simp add: True CursorUp_returns called_def onHide_el onHide_both)
next
  case False
  then show ?thesis
    by (simp add: CursorUp_fails)
qed

theorem click_runs_onHide_again_witness:
  "''visible'' \<in> el_states card_shown \<and> ga_global page = GaReturns \<and>
   ''visible'' \<in> headerText_states card_shown \<and>
   since card_shown (perform (CardPanel_ops 2) page CursorUp card_shown) =
     [Ga [''send'', ''event'', ''orientation-card'', ''dismissed'', ''''],
      SceneRemoveState ''modal'', ElRemoveState ''visible'',
      SceneRemoveState ''modal'', ElRemoveState ''visible'',
      HeaderTextRemoveState ''visible'',
      SceneRemoveState ''modal'', ElRemoveState ''visible'',
      HeaderTextRemoveState ''visible'', MeshHide Background [],
      MeshHide Header [0.05, 0.25],
      MeshHide Background [], MeshHide Header [0.05, 0.25],
      HeaderTextRemoveState ''visible'', MeshHide Background [],
      MeshHide Header [0.05, 0.25]] \<and>
   mesh_calls (calls (perform (CardPanel_ops 2) page CursorUp
       (card0\<lparr>el_states := {''visible''}\<rparr>))) =
     [MeshHide Background [], MeshHide Header [0.05, 0.25],
      MeshHide Background [], MeshHide Header [0.05, 0.25]] \<and>
   hiding (header (perform (CardPanel_ops 2) page CursorUp card_shown)) \<and>
   hiding (background (perform (CardPanel_ops 2) page CursorUp card_shown))"
proof -
  have a: "''visible'' \<in> el_states card_shown \<and> ga_global page = GaReturns"
    by (simp add: card_shown_eq card0_eq page_def)
  have b: "''visible'' \<in> el_states (card0\<lparr>el_states := {''visible''}\<rparr>) \<and>
           ga_global page = GaReturns"
    by (simp add: page_def)
  have c: "''visible'' \<in> headerText_states card_shown"
    by (simp add: card_shown_eq card0_eq)
  have d: "header card_shown = fst (panel_show [0.05] (fst (panel_show [0.05]
             (panel_setPosition 0 HEADER_Y_OFFSET (panel_new 2 HEADER_HEIGHT)))))"
    by (simp add: card_shown_eq card0_eq)
  have e: "background card_shown =
             fst (panel_show [0.25, 0.05] (fst (panel_show [0.25, 0.05] (panel_new 2 1))))"
    by (simp add: card_shown_eq card0_eq)
  note shown = click_runs_onHide_again [of "CardPanel_ops 2" page card_shown,
      THEN conjunct2, THEN mp, OF a]
  note fresh = click_runs_onHide_again
    [of "CardPanel_ops 2" page "card0\<lparr>el_states := {''visible''}\<rparr>",
      THEN conjunct2, THEN mp, OF b]
  have 1: "since card_shown (perform (CardPanel_ops 2) page CursorUp card_shown) =
     [Ga [''send'', ''event'', ''orientation-card'', ''dismissed'', ''''],
      SceneRemoveState ''modal'', ElRemoveState ''visible'',
      SceneRemoveState ''modal'', ElRemoveState ''visible'',
      HeaderTextRemoveState ''visible'',
      SceneRemoveState ''modal'', ElRemoveState ''visible'',
      HeaderTextRemoveState ''visible'', MeshHide Background [],
      MeshHide Header [0.05, 0.25],
      MeshHide Background [], MeshHide Header [0.05, 0.25],
      HeaderTextRemoveState ''visible'', MeshHide Background [],
      MeshHide Header [0.05, 0.25]]"
    unfolding since_def shown [THEN conjunct1]
    by (simp add: c d panel_hide_def panel_show_def passed_on_def)
  have 2: "mesh_calls (calls (perform (CardPanel_ops 2) page CursorUp
       (card0\<lparr>el_states := {''visible''}\<rparr>))) =
     [MeshHide Background [], MeshHide Header [0.05, 0.25],
      MeshHide Background [], MeshHide Header [0.05, 0.25]]"
    unfolding fresh [THEN conjunct1]
    by (simp add: card0_eq panel_hide_def passed_on_def)
  have 3: "hiding (header (perform (CardPanel_ops 2) page CursorUp card_shown))"
    unfolding shown [THEN conjunct2, THEN conjunct2, THEN conjunct1]
    by (simp add: c d panel_hide_def panel_show_def)
  have 4: "hiding (background (perform (CardPanel_ops 2) page CursorUp card_shown))"
    unfolding shown [THEN conjunct2, THEN conjunct1]
    by (simp add: c e panel_hide_def panel_show_def)
  from a c 1 2 3 4 show ?thesis
    by blast
qed

subsection \<open>The title\<close>



subsection \<open>Analytics\<close>

text \<open>
  Claim C8, as the specification states it, fails: with a \<open>ga\<close> that throws, the listener of
  \<open>stateadded\<close> ends with the exception, \<open>onShow\<close> is not run, no call is made and the scene
  does not get its state \<open>modal\<close>.
\<close>

theorem analytics_failure_blocks_reveal:
  "stateadded_listener (CardPanel_ops 2) (page\<lparr>ga_global := GaThrows\<rparr>) ''visible'' card0
     = Inl Thrown \<and>
   calls (perform (CardPanel_ops 2) (page\<lparr>ga_global := GaThrows\<rparr>) (AddState ''visible'') card0)
     = [] \<and>
   ''modal'' \<notin> scene_states
     (perform (CardPanel_ops 2) (page\<lparr>ga_global := GaThrows\<rparr>) (AddState ''visible'') card0)"
  by (simp add: stateadded_listener.simps ga_def swallow_def card0_eq)

text \<open>
  Claim C8, amended.  The component does not catch a failure of \<open>ga\<close>.  The listener of
  \<open>stateadded\<close> and the listener of the hit region call \<open>ga\<close> before anything else, so when
  \<open>ga\<close> is missing or throws they end with that exception and neither \<open>onShow\<close> nor \<open>onHide\<close>
  runs: the reveal makes no call and the click leaves the state as it was.  The listener of
  \<open>stateremoved\<close> does not call \<open>ga\<close> and runs \<open>onHide\<close> whatever \<open>ga\<close> does.
\<close>

theorem analytics_failure_ends_listener:
  assumes "ga_global g \<noteq> GaReturns"
  shows "(\<exists>e. stateadded_listener M g ''visible'' s = Inl e) \<and>
         (\<exists>e. raycaster_cursor_up_listener M g s = Inl e) \<and>
         since s (perform M g (AddState ''visible'') s) = [] \<and>
         perform M g CursorUp s = s \<and>
         stateremoved_listener M ''visible'' s = onHide M s"
  using assms
  by (cases "ga_global g")
    (simp_all add: stateadded_listener.simps raycaster_cursor_up_listener_def ga_def swallow_def
      since_def stateremoved_listener.simps)

theorem analytics_failure_ends_listener_witness:
  "ga_global (page\<lparr>ga_global := GaUndefined\<rparr>) \<noteq> GaReturns \<and>
   raycaster_cursor_up_listener (CardPanel_ops 2) (page\<lparr>ga_global := GaUndefined\<rparr>) card0
     = Inl ReferenceError \<and>
   perform (CardPanel_ops 2) (page\<lparr>ga_global := GaUndefined\<rparr>) CursorUp card0 = card0"
  using analytics_failure_ends_listener
    [of "page\<lparr>ga_global := GaUndefined\<rparr>" "CardPanel_ops 2" card0]
  by (simp add: raycaster_cursor_up_listener_def ga_def)

subsection \<open>The stagger of the two layers\<close>

text \<open>
  Claim C6, as the specification states it, fails: the timings of the way out are not those
  of the way in with the layers exchanged.  On the way in the header has delay 0.05 and the
  background delay 0.25 and stagger 0.05; the mirror would give the background delay 0.05
  and the header delay 0.25 and stagger 0.05 on the way out, but the background gets no
  delay and the header delay 0.05 and stagger 0.25.
\<close>

theorem playOut_is_not_the_mirror_of_playIn:
  "\<not> exact_mirror (show_timings (calls (onShow (CardPanel_ops 2) page card0)))
       (hide_timings (calls (onHide (CardPanel_ops 2) card0)))"
proof -
  have a: "set (show_timings (calls (onShow (CardPanel_ops 2) page card0)))
           = {(Background, 0.25, 0.05), (Header, 0.05, 0)}"
    using timings_onShow [of card0 "CardPanel_ops 2" page]
    by (auto simp add: since_def card0_eq split: if_splits)
  have b: "(Background, 0, 0) \<in> set (hide_timings (calls (onHide (CardPanel_ops 2) card0)))"
    using timings_onHide [of card0 "CardPanel_ops 2"] by (simp add: since_def card0_eq)
  show ?thesis
    by (rule not_mirrored [OF a b])
qed

text \<open>
  Claim C6, amended.  The way out reverses the order of the layers of the way in, and is
  not its exact mirror.  Every \<open>show\<close> that \<open>onShow\<close> issues has delay 0.25 and stagger 0.05
  for the background and delay 0.05 for the header, so the header has the shorter delay;
  every \<open>hide\<close> that \<open>onHide\<close> issues has no delay for the background and delay 0.05 and
  stagger 0.25 for the header, so the background has the shorter delay.  The layer that
  comes in last (the background) therefore goes out first.  The later layer gets the same
  two numbers 0.25 and 0.05 both ways with delay and stagger exchanged; the earlier layer
  gets delay 0.05 on the way in and none on the way out.  (The pair of \<open>show\<close> calls is
  issued twice in a run of \<open>onShow\<close> with a nested run, and the pair of \<open>hide\<close> calls once
  more for each nested run of \<open>onHide\<close>, always with these arguments.)
\<close>

theorem playOut_reverses_the_layer_order:
  "show_timings (since s (onShow M g s)) =
     (if ''visible'' \<notin> headerText_states s \<and> ga_global g = GaReturns
      then [(Background, 0.25, 0.05), (Header, 0.05, 0),
            (Background, 0.25, 0.05), (Header, 0.05, 0)]
      else [(Background, 0.25, 0.05), (Header, 0.05, 0)]) \<and>
   hide_timings (since s (onHide M s)) =
     (if ''visible'' \<in> el_states s \<and> ''visible'' \<in> headerText_states s
      then [(Background, 0, 0), (Header, 0.05, 0.25), (Background, 0, 0), (Header, 0.05, 0.25),
            (Background, 0, 0), (Header, 0.05, 0.25)]
      else if ''visible'' \<in> el_states s \<or> ''visible'' \<in> headerText_states s
      then [(Background, 0, 0), (Header, 0.05, 0.25), (Background, 0, 0), (Header, 0.05, 0.25)]
      else [(Background, 0, 0), (Header, 0.05, 0.25)]) \<and>
   set (show_timings (since s (onShow M g s))) =
     {(Background, 0.25, 0.05), (Header, 0.05, 0)} \<and>
   set (hide_timings (since s (onHide M s))) = {(Background, 0, 0), (Header, 0.05, 0.25)} \<and>
   the (delay_of Header (show_timings (since s (onShow M g s))))
     < the (delay_of Background (show_timings (since s (onShow M g s)))) \<and>
   the (delay_of Background (hide_timings (since s (onHide M s))))
     < the (delay_of Header (hide_timings (since s (onHide M s)))) \<and>
   \<not> exact_mirror (show_timings (since s (onShow M g s))) (hide_timings (since s (onHide M s)))"
proof -
  have a: "set (show_timings (since s (onShow M g s))) =
      {(Background, 0.25, 0.05), (Header, 0.05, 0)}"
    by (auto simp add: timings_onShow)
  have b: "set (hide_timings (since s (onHide M s))) = {(Background, 0, 0), (Header, 0.05, 0.25)}"
    by (auto simp add: timings_onHide)
  have "(Background, 0, 0) \<in> set (hide_timings (since s (onHide M s)))"
    by (simp add: b)
  then have c: "\<not> exact_mirror (show_timings (since s (onShow M g s)))
                 (hide_timings (since s (onHide M s)))"
    by (rule not_mirrored [OF a])
  have d: "the (delay_of Header (show_timings (since s (onShow M g s))))
      < the (delay_of Background (show_timings (since s (onShow M g s))))"
  proof -
    have "show_timings (since s (onShow M g s)) =
            [(Background, 0.25, 0.05), (Header, 0.05, 0),
             (Background, 0.25, 0.05), (Header, 0.05, 0)] \<or>
          show_timings (since s (onShow M g s)) = [(Background, 0.25, 0.05), (Header, 0.05, 0)]"
      unfolding timings_onShow by simp
    then show ?thesis
      by (elim disjE) (simp_all add: delay_of_def)
  qed
  have e: "the (delay_of Background (hide_timings (since s (onHide M s))))
      < the (delay_of Header (hide_timings (since s (onHide M s))))"
  proof -
    have "hide_timings (since s (onHide M s)) =
            [(Background, 0, 0), (Header, 0.05, 0.25), (Background, 0, 0), (Header, 0.05, 0.25),
             (Background, 0, 0), (Header, 0.05, 0.25)] \<or>
          hide_timings (since s (onHide M s)) =
            [(Background, 0, 0), (Header, 0.05, 0.25), (Background, 0, 0), (Header, 0.05, 0.25)] \<or>
          hide_timings (since s (onHide M s)) = [(Background, 0, 0), (Header, 0.05, 0.25)]"
      unfolding timings_onHide by simp
    then show ?thesis
      by (elim disjE) (simp_all add: delay_of_def)
  qed
  from a b c d e show ?thesis
    using timings_onShow [of s M g] timings_onHide [of s M] by blast
qed

text \<open>
  Claim C7, as the specification states it, fails: on reveal the \<open>show\<close> of the header is
  issued with the argument 0.05, which the signature of the specification reads as its
  delay, so the delay of the header is 0.05 and not zero.
\<close>

theorem header_show_is_delayed:
  "delay_of Header (show_timings (calls (onShow (CardPanel_ops 2) page card0))) = Some 0.05 \<and>
   delay_of Header (show_timings (calls (onShow (CardPanel_ops 2) page card0))) \<noteq> Some 0"
  using timings_onShow [of card0 "CardPanel_ops 2" page]
  by (simp add: since_def card0_eq delay_of_def page_def)

text \<open>
  Claim C7, amended.  On reveal the \<open>show\<close> of the header is issued with a delay of 0.05 and
  no stagger, and the \<open>show\<close> of the background with a delay of 0.25 and a stagger of 0.05:
  both layers start after a short fixed delay, the header after the shorter one.
\<close>

theorem reveal_delays:
  "delay_of Header (show_timings (since s (onShow M g s))) = Some 0.05 \<and>
   stagger_of Header (show_timings (since s (onShow M g s))) = Some 0 \<and>
   delay_of Background (show_timings (since s (onShow M g s))) = Some 0.25 \<and>
   stagger_of Background (show_timings (since s (onShow M g s))) = Some 0.05"
proof -
  have "show_timings (since s (onShow M g s)) =
          [(Background, 0.25, 0.05), (Header, 0.05, 0),
           (Background, 0.25, 0.05), (Header, 0.05, 0)] \<or>
        show_timings (since s (onShow M g s)) = [(Background, 0.25, 0.05), (Header, 0.05, 0)]"
    unfolding timings_onShow by simp
  then show ?thesis
    by (elim disjE) (simp_all add: delay_of_def stagger_of_def)
qed

subsection \<open>Repeated triggers\<close>

text \<open>
  Claim C5, as the specification states it, fails: \<open>onHide\<close> has no guard.  On a card that
  is hidden (both panels at progress 0 and not animating, \<open>el\<close> without the state
  \<open>visible\<close>) it is not a no-op: it calls \<open>hide\<close> on both meshes.
\<close>

theorem onHide_while_hidden_calls_hide:
  "animationProgress (header card0) = 0 \<and> \<not> isAnimating (header card0) \<and>
   animationProgress (background card0) = 0 \<and> \<not> isAnimating (background card0) \<and>
   ''visible'' \<notin> el_states card0 \<and>
   mesh_calls (calls (onHide (CardPanel_ops 2) card0)) =
     [MeshHide Background [], MeshHide Header [0.05, 0.25]]"
  by (simp add: card0_eq onHide_none panel_new_def panel_setPosition_def)

text \<open>
  Claim C5, amended.  \<open>onShow\<close> and \<open>onHide\<close> have no guard and read neither the progress
  nor the animating flag of a panel.  In every state \<open>onShow\<close> issues
  \<open>background.show( 0.25, 0.05 )\<close> and \<open>header.show( 0.05 )\<close> (twice over in a run with a
  nested run, which the first reveal is), a second \<open>onShow\<close> issues them again, and \<open>onHide\<close>
  issues \<open>background.hide()\<close> and \<open>header.hide( 0.05, 0.25 )\<close>, once more for each of \<open>el\<close>
  and the title that has the state \<open>visible\<close>; so each mesh receives every repeated call and
  what a repeated call does is left to \<open>CardMesh\<close>.  The named states and the position are
  idempotent: a second \<open>onShow\<close> leaves them as the first did, and \<open>onHide\<close> only removes
  \<open>modal\<close> and \<open>visible\<close>.
\<close>

theorem onShow_onHide_unguarded:
  "mesh_calls (since s (onShow M g s)) =
     (if ''visible'' \<notin> headerText_states s \<and> ga_global g = GaReturns
      then [MeshShow Background [0.25, 0.05], MeshShow Header [0.05],
            MeshShow Background [0.25, 0.05], MeshShow Header [0.05]]
      else [MeshShow Background [0.25, 0.05], MeshShow Header [0.05]]) \<and>
   mesh_calls (since (onShow M g s) (onShow M g (onShow M g s))) =
     [MeshShow Background [0.25, 0.05], MeshShow Header [0.05]] \<and>
   mesh_calls (since s (onHide M s)) =
     (if ''visible'' \<in> el_states s \<and> ''visible'' \<in> headerText_states s
      then [MeshHide Background [], MeshHide Header [0.05, 0.25],
            MeshHide Background [], MeshHide Header [0.05, 0.25],
            MeshHide Background [], MeshHide Header [0.05, 0.25]]
      else if ''visible'' \<in> el_states s \<or> ''visible'' \<in> headerText_states s
      then [MeshHide Background [], MeshHide Header [0.05, 0.25],
            MeshHide Background [], MeshHide Header [0.05, 0.25]]
      else [MeshHide Background [], MeshHide Header [0.05, 0.25]]) \<and>
   header (onShow M g (onShow M g s)) = fst (show_mesh M [0.05] (header (onShow M g s))) \<and>
   background (onShow M g (onShow M g s)) =
     fst (show_mesh M [0.25, 0.05] (background (onShow M g s))) \<and>
   scene_states (onShow M g (onShow M g s)) = scene_states (onShow M g s) \<and>
   headerText_states (onShow M g (onShow M g s)) = headerText_states (onShow M g s) \<and>
   el_position (onShow M g (onShow M g s)) = el_position (onShow M g s) \<and>
   scene_states (onHide M s) = scene_states s - {''modal''} \<and>
   el_states (onHide M s) = el_states s - {''visible''} \<and>
   headerText_states (onHide M s) = headerText_states s - {''visible''}"
proof -
  have second: "\<not> (''visible'' \<notin> headerText_states (onShow M g s) \<and> ga_global g = GaReturns)"
    by (simp add: onShow_title_visible)
  have "mesh_calls (since (onShow M g s) (onShow M g (onShow M g s))) =
      [MeshShow Background [0.25, 0.05], MeshShow Header [0.05]]"
    using mesh_calls_onShow [of "onShow M g s" M g] second by simp
  moreover have "header (onShow M g (onShow M g s)) =
      fst (show_mesh M [0.05] (header (onShow M g s)))"
    and "background (onShow M g (onShow M g s)) =
      fst (show_mesh M [0.25, 0.05] (background (onShow M g s)))"
    and "scene_states (onShow M g (onShow M g s)) = scene_states (onShow M g s)"
    and "headerText_states (onShow M g (onShow M g s)) = headerText_states (onShow M g s)"
    and "el_position (onShow M g (onShow M g s)) = el_position (onShow M g s)"
    unfolding onShow_single [OF second]
    by (cases "''visible'' \<notin> headerText_states s \<and> ga_global g = GaReturns";
        simp add: onShow_nested onShow_single)+
  moreover have "scene_states (onHide M s) = scene_states s - {''modal''}"
    and "el_states (onHide M s) = el_states s - {''visible''}"
    and "headerText_states (onHide M s) = headerText_states s - {''visible''}"
    by (cases "''visible'' \<in> el_states s"; cases "''visible'' \<in> headerText_states s";
        simp add: onHide_none onHide_el onHide_title onHide_both)+
  ultimately show ?thesis
    using mesh_calls_onShow [of s M g] mesh_calls_onHide [of s M]
    by simp
qed

subsection \<open>The completion event\<close>

lemma once_per_reveal_append:
  "once_per_reveal p (xs @ ys) \<longleftrightarrow>
     once_per_reveal p xs \<and> once_per_reveal (pending_after p xs) ys"
  by (induction p xs rule: once_per_reveal.induct) simp_all

lemma pending_after_append:
  "pending_after p (xs @ ys) = pending_after (pending_after p xs) ys"
  by (induction p xs rule: pending_after.induct) simp_all

lemma emitted_append [simp]: "emitted (xs @ ys) = emitted xs @ emitted ys"
  by (induction xs rule: emitted.induct) simp_all

lemma advance_fires:
  "snd (panel_advance v dt p) = (if hide_completes v dt p then [''hide-complete''] else [])"
  by (auto simp add: panel_advance_def hide_completes_def Let_def max_def)

lemma show_fires [simp]: "snd (panel_show args p) = []"
  by (simp add: panel_show_def)

lemma hide_fires [simp]: "snd (panel_hide args p) = []"
  by (simp add: panel_hide_def)

lemma passed_on_simps [simp]:
  "passed_on [] = []" "passed_on [''hide-complete''] = [ElEmit ''hide-complete'']"
  by (simp_all add: passed_on_def)

lemma discipline_onShow:
  assumes "discipline s"
  shows "discipline (onShow (CardPanel_ops v) g s)"
proof (cases "''visible'' \<notin> headerText_states s \<and> ga_global g = GaReturns")
  case True
  with assms show ?thesis
    by (simp add: discipline_def onShow_nested once_per_reveal_append pending_after_append)
next
  case False
  with assms show ?thesis
    by (simp add: discipline_def onShow_single [OF False] once_per_reveal_append
        pending_after_append)
qed

lemma discipline_onHide:
  "discipline s \<Longrightarrow> discipline (onHide (CardPanel_ops v) s)"
  by (cases "''visible'' \<in> el_states s"; cases "''visible'' \<in> headerText_states s")
    (simp_all add: discipline_def onHide_none onHide_title onHide_el onHide_both
      once_per_reveal_append pending_after_append panel_hide_def)

lemma discipline_tick:
  assumes "0 \<le> v" and "discipline s"
  shows "discipline (tick (CardPanel_ops v) t dt s)"
proof (cases "hide_completes v dt (header s)")
  case True
  then have "0 < animationProgress (header s)"
    by (simp add: hide_completes_def)
  with assms(2) have pend: "pending_after False (calls s)" and once: "once_per_reveal False (calls s)"
    by (simp_all add: discipline_def)
  from True have after: "animationProgress (fst (panel_advance v dt (header s))) = 0"
      "\<not> isAnimating (fst (panel_advance v dt (header s)))"
    by (auto simp add: hide_completes_def panel_advance_def Let_def max_def)
  show ?thesis
    using True pend once after
    by (simp add: discipline_def tick_eq advance_fires once_per_reveal_append pending_after_append)
next
  case False
  have keep: "0 < animationProgress (fst (panel_advance v dt (header s))) \<or>
      (isAnimating (fst (panel_advance v dt (header s))) \<and> \<not> hiding (fst (panel_advance v dt (header s))))
      \<Longrightarrow> 0 < animationProgress (header s) \<or> (isAnimating (header s) \<and> \<not> hiding (header s))"
  proof -
    assume a: "0 < animationProgress (fst (panel_advance v dt (header s))) \<or>
      (isAnimating (fst (panel_advance v dt (header s))) \<and> \<not> hiding (fst (panel_advance v dt (header s))))"
    show ?thesis
    proof (cases "isAnimating (header s) \<and> \<not> dt < delayLeft (header s) \<and> hiding (header s)")
      case True
      then have "0 \<le> (dt - delayLeft (header s)) * v"
        using assms(1) by simp
      with a True show ?thesis
        by (auto simp add: panel_advance_def Let_def max_def split: if_splits)
    next
      case False
      with a show ?thesis
        by (auto simp add: panel_advance_def Let_def split: if_splits)
    qed
  qed
  show ?thesis
    using False assms(2) keep
    by (auto simp add: discipline_def tick_eq advance_fires once_per_reveal_append pending_after_append)
qed

lemma discipline_Ga:
  "discipline s \<Longrightarrow> discipline (called (Ga args) s)"
  by (simp add: discipline_def called_def once_per_reveal_append pending_after_append)

lemma discipline_el_states:
  "discipline s \<Longrightarrow> discipline (s\<lparr>el_states := S\<rparr>)"
  by (simp add: discipline_def)

lemma discipline_perform:
  assumes "0 \<le> v" and "discipline s"
  shows "discipline (perform (CardPanel_ops v) g act s)"
proof (cases act)
  case (AddState st)
  have a: "discipline (s\<lparr>el_states := insert st (el_states s)\<rparr>)"
    using assms(2) by (rule discipline_el_states)
  show ?thesis
    using assms(2) a discipline_onShow [OF discipline_Ga [OF a]]
    by (cases "ga_global g")
      (auto simp add: AddState stateadded_listener.simps ga_def swallow_def)
next
  case (RemoveState st)
  have a: "discipline (s\<lparr>el_states := el_states s - {st}\<rparr>)"
    using assms(2) by (rule discipline_el_states)
  show ?thesis
    using assms(2) a discipline_onHide [OF a]
    by (auto simp add: RemoveState stateremoved_listener.simps)
next
  case CursorUp
  show ?thesis
    using assms(2) discipline_onHide [OF discipline_Ga [OF assms(2)]]
    by (cases "ga_global g") (auto simp add: CursorUp raycaster_cursor_up_listener_def ga_def swallow_def)
next
  case (Frame t dt)
  then show ?thesis
    using discipline_tick [OF assms] by simp
qed

lemma discipline_run:
  assumes "0 \<le> v"
  shows "discipline s \<Longrightarrow> discipline (run (CardPanel_ops v) g acts s)"
  unfolding run_def
  by (induction acts arbitrary: s) (simp_all add: discipline_perform [OF assms])

lemma discipline_init:
  "discipline (built_card (init (CardPanel_ops v) g data s0))"
  by (simp add: discipline_def init_def panel_new_def panel_setPosition_def)

lemma emitted_passed_on_fires:
  "emitted (passed_on (snd (panel_advance v dt p))) =
     (if hide_completes v dt p then [''hide-complete''] else [])"
  by (simp add: advance_fires)

lemma emitted_onShow: "emitted (since s (onShow (CardPanel_ops v) g s)) = []"
  by (cases "''visible'' \<notin> headerText_states s \<and> ga_global g = GaReturns")
    (simp_all add: since_def onShow_nested onShow_single)

lemma emitted_onHide: "emitted (since s (onHide (CardPanel_ops v) s)) = []"
  by (cases "''visible'' \<in> el_states s"; cases "''visible'' \<in> headerText_states s")
    (simp_all add: since_def onHide_none onHide_title onHide_el onHide_both)

lemma emitted_tick:
  "emitted (since s (tick (CardPanel_ops v) t dt s)) =
     (if hide_completes v dt (header s) then [''hide-complete''] else [])"
  by (simp add: since_def tick_eq advance_fires)

lemma emitted_perform:
  "emitted (since s (perform (CardPanel_ops v) g act s)) =
     (case act of
        Frame t dt \<Rightarrow> if hide_completes v dt (header s) then [''hide-complete''] else []
      | _ \<Rightarrow> [])"
proof (cases act)
  case (AddState st)
  let ?s = "s\<lparr>el_states := insert st (el_states s)\<rparr>"
  let ?c = "Ga [''send'', ''event'', ''orientation-card'', ''opened'', '''']"
  have "emitted (drop (length (calls s)) (calls (onShow (CardPanel_ops v) g (called ?c ?s)))) = []"
    by (cases "''visible'' \<notin> headerText_states s \<and> ga_global g = GaReturns")
      (simp_all add: onShow_nested onShow_single called_def)
  then show ?thesis
    by (cases "ga_global g")
      (auto simp add: AddState stateadded_listener.simps ga_def swallow_def since_def)
next
  case (RemoveState st)
  show ?thesis
    using emitted_onHide [of "s\<lparr>el_states := el_states s - {st}\<rparr>" v]
    by (auto simp add: RemoveState stateremoved_listener.simps since_def)
next
  case CursorUp
  show ?thesis
  proof (cases "ga_global g = GaReturns")
    case True
    show ?thesis
      by (cases "''visible'' \<in> el_states s"; cases "''visible'' \<in> headerText_states s")
        (simp_all add: CursorUp CursorUp_returns [OF True] since_def onHide_none onHide_title
          onHide_el onHide_both)
  next
    case False
    then show ?thesis
      by (cases "ga_global g")
        (simp_all add: CursorUp raycaster_cursor_up_listener_def ga_def swallow_def since_def)
  qed
next
  case (Frame t dt)
  then show ?thesis
    by (simp add: emitted_tick)
qed

lemma tick_completes:
  assumes "hide_completes v dt (header s)"
  shows "animationProgress (header (tick (CardPanel_ops v) t dt s)) = 0"
    and "\<not> el_visible (tick (CardPanel_ops v) t dt s)"
  using assms
  by (auto simp add: tick_eq hide_completes_def panel_advance_def Let_def max_def)

lemma hiding_tick:
  "hiding (header (tick (CardPanel_ops v) t dt s)) = hiding (header s)"
  by (simp add: tick_eq panel_advance_def Let_def)

text \<open>
  Claim C4, with the header and the background being panels of the specification (of any
  speed that is not negative).  In every session that starts at \<open>init\<close>, every event the
  component emits on \<open>el\<close> is \<open>hide-complete\<close>, and each one comes after a \<open>show\<close> of the
  header that no earlier \<open>hide-complete\<close> has used up: never twice without a reveal in
  between.  Of the things the host does, only a frame emits, one event at most, and it does
  so in exactly the frames in which the hide animation of the header completes; after such
  a frame the progress of the header is 0 and the card is not visible.  From \<open>onShow\<close> on
  the header is not hiding, frames leave that as it is, and while the header is not hiding
  nothing is emitted: never during a reveal.
\<close>

theorem hide_complete_once_per_hide:
  assumes "0 \<le> v"
  shows "once_per_reveal False
           (calls (run (CardPanel_ops v) g acts (built_card (init (CardPanel_ops v) g data s0)))) \<and>
         emitted (since s (perform (CardPanel_ops v) g act s)) =
           (case act of
              Frame t dt \<Rightarrow> if hide_completes v dt (header s) then [''hide-complete''] else []
            | _ \<Rightarrow> []) \<and>
         (hide_completes v dt (header s) \<longrightarrow>
            animationProgress (header (tick (CardPanel_ops v) t dt s)) = 0 \<and>
            \<not> el_visible (tick (CardPanel_ops v) t dt s)) \<and>
         \<not> hiding (header (onShow (CardPanel_ops v) g s)) \<and>
         hiding (header (tick (CardPanel_ops v) t dt s)) = hiding (header s) \<and>
         (\<not> hiding (header s) \<longrightarrow> emitted (since s (perform (CardPanel_ops v) g act s)) = [])"
proof -
  have "discipline (run (CardPanel_ops v) g acts (built_card (init (CardPanel_ops v) g data s0)))"
    by (rule discipline_run [OF assms discipline_init])
  then have "once_per_reveal False
      (calls (run (CardPanel_ops v) g acts (built_card (init (CardPanel_ops v) g data s0))))"
    by (simp add: discipline_def)
  moreover have "\<not> hiding (header (onShow (CardPanel_ops v) g s))"
    by (cases "''visible'' \<notin> headerText_states s \<and> ga_global g = GaReturns")
      (simp_all add: onShow_nested onShow_single panel_show_def)
  moreover have "\<not> hiding (header s) \<longrightarrow>
      emitted (since s (perform (CardPanel_ops v) g act s)) = []"
    unfolding emitted_perform by (cases act) (simp_all add: hide_completes_def)
  ultimately show ?thesis
    using tick_completes [of v dt s t] hiding_tick [of v t dt s] emitted_perform [of s v g act]
    by simp
qed

theorem hide_complete_once_per_hide_witness:
  "(0::real) \<le> 2 \<and>
   hide_completes 2 0.3 (header (run (CardPanel_ops 2) page (take 7 acts0) card0)) \<and>
   \<not> hiding (header (run (CardPanel_ops 2) page (take 4 acts0) card0)) \<and>
   emitted (calls (run (CardPanel_ops 2) page (take 7 acts0) card0)) = [] \<and>
   emitted (calls (run (CardPanel_ops 2) page (take 8 acts0) card0)) = [''hide-complete''] \<and>
   emitted (calls (run (CardPanel_ops 2) page acts0 card0)) = [''hide-complete''] \<and>
   once_per_reveal False (calls (run (CardPanel_ops 2) page acts0 card0)) \<and>
   \<not> el_visible (run (CardPanel_ops 2) page (take 8 acts0) card0)"
  using hide_complete_once_per_hide [of 2 page acts0 orientation blank
      "run (CardPanel_ops 2) page (take 7 acts0) card0" "Frame 1.65 0.3" "1.65" "0.3"]
    hide_complete_once_per_hide [of 2 page acts0 orientation blank
      "run (CardPanel_ops 2) page (take 4 acts0) card0" "CursorUp" "1.65" "0.3"]
  by code_simp

end
